theory Spec2Isabelle
  imports Main "HOL-Library.Word"
begin

section \<open>Results of Go calls\<close>

text \<open>
  A Go call either returns its results or panics (a nil pointer is dereferenced).
  A result pair \<open>(value, error)\<close> of the source is a pair whose second component is
  \<open>None\<close> for a nil error.
\<close>

datatype 'a outcome = Returns 'a | Panics

text \<open>\<open>*p\<close> for a pointer \<open>p\<close> that may be nil.\<close>

fun deref :: "'a option \<Rightarrow> 'a outcome" where
  "deref None = Panics"
| "deref (Some x) = Returns x"

section \<open>Data model\<close>

subsection \<open>Errors\<close>

text \<open>
  golang.org/x/oauth2 \<open>Token\<close>: the two fields that \<open>GetAccessToken\<close> reads.
\<close>

record Token =
  AccessToken :: string
  TokenType :: string

text \<open>
  An error value is either made by a collaborator (a library, the cluster client, a
  mutator parser) or by one of the two \<open>fmt.Errorf\<close> calls of \<open>GetAccessToken\<close>:
  \<open>TokenInvalid t\<close> is \<open>fmt.Errorf("token invalid. got: %#v", t)\<close> and
  \<open>WrongTokenType ty\<close> is \<open>fmt.Errorf("token type = %q; want %q", ty, "Bearer")\<close>.
\<close>

datatype error =
    CollaboratorError string
  | TokenInvalid "Token option"
  | WrongTokenType string

subsection \<open>APIRule (package api/v1beta1)\<close>

text \<open>
  Modelled from the spec: the type declarations of package api/v1beta1, which the verified
  files only use. The spec gives
  \<open>APIRule{host, gateway, service{name,port}?, rules:[{path, accessStrategies, service?,
  mutators?{cookie,header}}]}\<close>; the source dereferences \<open>Host\<close>, \<open>Gateway\<close>,
  \<open>Service.Name\<close> and \<open>Service.Port\<close> and tests \<open>Service\<close> against nil, so these
  are pointers (\<open>None\<close> is nil). An access strategy is its handler name, a mutator a
  handler name with its raw definition.
\<close>

record Service =
  Service_Name :: "string option"
  Service_Port :: "32 word option"

record Rule =
  Path :: string
  Rule_Service :: "Service option"
  AccessStrategies :: "string list"
  Mutators :: "(string \<times> string) list"

record APIRuleSpec =
  Host :: "string option"
  Gateway :: "string option"
  Service :: "Service option"
  Rules :: "Rule list"

text \<open>
  The Kubernetes object metadata, embedded in every API object: the fields that identify
  an object and its labels.
\<close>

record ObjectMeta =
  Name :: string
  GenerateName :: string
  Namespace :: string
  ResourceVersion :: string
  Labels :: "string \<rightharpoonup> string"

record APIRule =
  APIRule_ObjectMeta :: ObjectMeta
  Spec :: APIRuleSpec

subsection \<open>VirtualService (istio.io networking/v1beta1)\<close>

text \<open>
  The routing object, as far as the source builds it:
  \<open>RoutingObject{metadata{generateName, namespace, labels}, spec{hosts:[host],
  gateways:[gateway], http:[{match:[{uri:{prefix|regex}}],
  route:[{destination:{host,port}}], corsPolicy, timeout,
  headers:{request:{set,add,remove}}}]}}\<close>.
\<close>

datatype StringMatch = Prefix string | Regex string

record HTTPMatchRequest =
  Uri :: "StringMatch option"

record Destination =
  Destination_Host :: string
  Destination_Port :: "32 word"

record HTTPRouteDestination =
  Destination :: Destination

record CorsPolicy =
  CorsPolicy_AllowOrigins :: "StringMatch list"
  CorsPolicy_AllowMethods :: "string list"
  CorsPolicy_AllowHeaders :: "string list"

record HeaderOperations =
  Headers_Set :: "string \<rightharpoonup> string"
  Headers_Add :: "string \<rightharpoonup> string"
  Headers_Remove :: "string list"

record Headers =
  Request :: HeaderOperations

text \<open>\<open>time.Duration\<close> is an int64 count of nanoseconds.\<close>

type_synonym Duration = "64 word"

record HTTPRoute =
  Match :: "HTTPMatchRequest list"
  Route :: "HTTPRouteDestination list"
  HTTPRoute_CorsPolicy :: "CorsPolicy option"
  Timeout :: "Duration option"
  HTTPRoute_Headers :: "Headers option"

record VirtualServiceSpec =
  Hosts :: "string list"
  Gateways :: "string list"
  Http :: "HTTPRoute list"

text \<open>The object embeds its metadata, so \<open>Name vs\<close> is Go's \<open>vs.Name\<close>.\<close>

record VirtualService = ObjectMeta +
  Spec_vs :: VirtualServiceSpec

subsection \<open>Reconciliation configuration and mutators (package processing, api/v1beta1)\<close>

text \<open>
  Modelled from the spec: the declarations of \<open>processing.CorsConfig\<close> and of the two
  mutator configurations, which the verified files only use. The source reads the three
  fields of the CORS configuration and the field \<open>Headers\<close> of a header mutator; the
  entries of a Go map are listed.
\<close>

record CorsConfig =
  AllowOrigins :: "StringMatch list"
  AllowMethods :: "string list"
  AllowHeaders :: "string list"

record CookieMutatorConfig =
  Cookies :: "(string \<times> string) list"

record HeaderMutatorConfig =
  Headers :: "(string \<times> string) list"

section \<open>Package builders\<close>

text \<open>
  Modelled from the spec: package internal/builders, whose source is not among the
  verified files. Each builder starts from the zero value of the object it builds; a
  setter writes its field, and \<open>Match\<close>, \<open>Route\<close>, \<open>Host\<close>, \<open>Gateway\<close> and \<open>HTTP\<close>
  add one element at the end of a sequence (the spec: ``a Spec aggregating Host/Gateway
  plus the ordered Routes'', ``Route order mirrors Rule order''). \<open>Label k v\<close> writes the
  entry \<open>k\<close> of the label map; \<open>GenerateName\<close> leaves \<open>Name\<close> empty (``generated (empty,
  to-be-assigned) name'').
\<close>

definition builders_RouteDestination :: HTTPRouteDestination where
  "builders_RouteDestination =
     \<lparr>Destination = \<lparr>Destination_Host = [], Destination_Port = 0\<rparr>\<rparr>"

definition RouteDestination_Host :: "string \<Rightarrow> HTTPRouteDestination \<Rightarrow> HTTPRouteDestination" where
  "RouteDestination_Host h rd = rd\<lparr>Destination := (Destination rd)\<lparr>Destination_Host := h\<rparr>\<rparr>"

definition RouteDestination_Port :: "32 word \<Rightarrow> HTTPRouteDestination \<Rightarrow> HTTPRouteDestination" where
  "RouteDestination_Port p rd = rd\<lparr>Destination := (Destination rd)\<lparr>Destination_Port := p\<rparr>\<rparr>"

definition builders_MatchRequest :: HTTPMatchRequest where
  "builders_MatchRequest = \<lparr>Uri = None\<rparr>"

definition MatchRequest_Uri_Prefix :: "string \<Rightarrow> HTTPMatchRequest \<Rightarrow> HTTPMatchRequest" where
  "MatchRequest_Uri_Prefix s mr = mr\<lparr>Uri := Some (Prefix s)\<rparr>"

definition MatchRequest_Uri_Regex :: "string \<Rightarrow> HTTPMatchRequest \<Rightarrow> HTTPMatchRequest" where
  "MatchRequest_Uri_Regex s mr = mr\<lparr>Uri := Some (Regex s)\<rparr>"

definition builders_CorsPolicy :: CorsPolicy where
  "builders_CorsPolicy =
     \<lparr>CorsPolicy_AllowOrigins = [], CorsPolicy_AllowMethods = [], CorsPolicy_AllowHeaders = []\<rparr>"

definition CorsPolicy_AllowOrigins_add :: "StringMatch list \<Rightarrow> CorsPolicy \<Rightarrow> CorsPolicy" where
  "CorsPolicy_AllowOrigins_add xs cp =
     cp\<lparr>CorsPolicy_AllowOrigins := CorsPolicy_AllowOrigins cp @ xs\<rparr>"

definition CorsPolicy_AllowMethods_add :: "string list \<Rightarrow> CorsPolicy \<Rightarrow> CorsPolicy" where
  "CorsPolicy_AllowMethods_add xs cp =
     cp\<lparr>CorsPolicy_AllowMethods := CorsPolicy_AllowMethods cp @ xs\<rparr>"

definition CorsPolicy_AllowHeaders_add :: "string list \<Rightarrow> CorsPolicy \<Rightarrow> CorsPolicy" where
  "CorsPolicy_AllowHeaders_add xs cp =
     cp\<lparr>CorsPolicy_AllowHeaders := CorsPolicy_AllowHeaders cp @ xs\<rparr>"

definition builders_HTTPRoute :: HTTPRoute where
  "builders_HTTPRoute =
     \<lparr>Match = [], Route = [], HTTPRoute_CorsPolicy = None, Timeout = None,
      HTTPRoute_Headers = None\<rparr>"

definition HTTPRoute_Route :: "HTTPRouteDestination \<Rightarrow> HTTPRoute \<Rightarrow> HTTPRoute" where
  "HTTPRoute_Route rd hr = hr\<lparr>Route := Route hr @ [rd]\<rparr>"

definition HTTPRoute_Match :: "HTTPMatchRequest \<Rightarrow> HTTPRoute \<Rightarrow> HTTPRoute" where
  "HTTPRoute_Match mr hr = hr\<lparr>Match := Match hr @ [mr]\<rparr>"

definition HTTPRoute_CorsPolicy_set :: "CorsPolicy \<Rightarrow> HTTPRoute \<Rightarrow> HTTPRoute" where
  "HTTPRoute_CorsPolicy_set cp hr = hr\<lparr>HTTPRoute_CorsPolicy := Some cp\<rparr>"

definition HTTPRoute_Timeout :: "Duration \<Rightarrow> HTTPRoute \<Rightarrow> HTTPRoute" where
  "HTTPRoute_Timeout t hr = hr\<lparr>Timeout := Some t\<rparr>"

definition HTTPRoute_Headers_set :: "Headers \<Rightarrow> HTTPRoute \<Rightarrow> HTTPRoute" where
  "HTTPRoute_Headers_set h hr = hr\<lparr>HTTPRoute_Headers := Some h\<rparr>"

definition builders_VirtualServiceSpec :: VirtualServiceSpec where
  "builders_VirtualServiceSpec = \<lparr>Hosts = [], Gateways = [], Http = []\<rparr>"

definition VirtualServiceSpec_Host :: "string \<Rightarrow> VirtualServiceSpec \<Rightarrow> VirtualServiceSpec" where
  "VirtualServiceSpec_Host h s = s\<lparr>Hosts := Hosts s @ [h]\<rparr>"

definition VirtualServiceSpec_Gateway :: "string \<Rightarrow> VirtualServiceSpec \<Rightarrow> VirtualServiceSpec" where
  "VirtualServiceSpec_Gateway g s = s\<lparr>Gateways := Gateways s @ [g]\<rparr>"

definition VirtualServiceSpec_HTTP :: "HTTPRoute \<Rightarrow> VirtualServiceSpec \<Rightarrow> VirtualServiceSpec" where
  "VirtualServiceSpec_HTTP hr s = s\<lparr>Http := Http s @ [hr]\<rparr>"

definition builders_VirtualService :: VirtualService where
  "builders_VirtualService =
     \<lparr>Name = [], GenerateName = [], Namespace = [], ResourceVersion = [],
      Labels = Map.empty, Spec_vs = builders_VirtualServiceSpec\<rparr>"

definition VirtualService_GenerateName :: "string \<Rightarrow> VirtualService \<Rightarrow> VirtualService" where
  "VirtualService_GenerateName n vs = vs\<lparr>Name := [], GenerateName := n\<rparr>"

definition VirtualService_Namespace :: "string \<Rightarrow> VirtualService \<Rightarrow> VirtualService" where
  "VirtualService_Namespace n vs = vs\<lparr>Namespace := n\<rparr>"

definition VirtualService_Label :: "string \<Rightarrow> string \<Rightarrow> VirtualService \<Rightarrow> VirtualService" where
  "VirtualService_Label k v vs = vs\<lparr>Labels := (Labels vs)(k \<mapsto> v)\<rparr>"

definition VirtualService_Spec :: "VirtualServiceSpec \<Rightarrow> VirtualService \<Rightarrow> VirtualService" where
  "VirtualService_Spec s vs = vs\<lparr>Spec_vs := s\<rparr>"

section \<open>Functions of the repository that the verified files call\<close>

text \<open>
  \<open>Create\<close> calls functions of packages processing, helpers, builders and api/v1beta1
  whose source is not among the verified files. They are parameters of the model, under
  the names the source calls them by, so every theorem about \<open>Create\<close> holds for each
  implementation of them that returns. A Go map is given by the list of its entries in the
  order a \<open>range\<close> loop visits them.
\<close>

record Env =
  FilterDuplicatePaths :: "Rule list \<Rightarrow> Rule list"
  IsSecured :: "Rule \<Rightarrow> bool"
  IsJwtSecured :: "Rule \<Rightarrow> bool"
  FindServiceNamespace :: "APIRule \<Rightarrow> Rule \<Rightarrow> string"
  GetHostLocalDomain :: "string \<Rightarrow> string \<Rightarrow> string"
  GetHostWithDomain :: "string \<Rightarrow> string \<Rightarrow> string"
  GetCookieMutator :: "Rule \<Rightarrow> CookieMutatorConfig \<times> error option"
  HasCookies :: "CookieMutatorConfig \<Rightarrow> bool"
  ToString :: "CookieMutatorConfig \<Rightarrow> string"
  GetHeaderMutator :: "Rule \<Rightarrow> HeaderMutatorConfig \<times> error option"
  HasHeaders :: "HeaderMutatorConfig \<Rightarrow> bool"
  NewHttpRouteHeadersBuilder :: Headers
  SetHostHeader :: "string \<Rightarrow> Headers \<Rightarrow> Headers"
  SetRequestCookies :: "string \<Rightarrow> Headers \<Rightarrow> Headers"
  SetRequestHeaders :: "(string \<times> string) list \<Rightarrow> Headers \<Rightarrow> Headers"
  OwnerLabel :: string
  OwnerLabelv1alpha1 :: string
  GetOwnerLabels :: "APIRule \<Rightarrow> (string \<times> string) list"

section \<open>internal/processing/istio/virtual\_service\_processor.go\<close>

text \<open>
  The creator holds the defaults of the reconciliation configuration. \<open>corsConfig\<close> is a
  pointer; \<open>httpTimeoutDuration\<close> is a Go \<open>int\<close> (64 bits).
\<close>

record virtualServiceCreator =
  oathkeeperSvc :: string
  oathkeeperSvcPort :: "32 word"
  corsConfig :: "CorsConfig option"
  defaultDomainName :: string
  additionalLabels :: "(string \<times> string) list"
  httpTimeoutDuration :: "64 word"

text \<open>Lines 50 to 55: which rules are routed to the service itself.\<close>

definition routeDirectlyToService :: "Env \<Rightarrow> Rule \<Rightarrow> bool" where
  "routeDirectlyToService d rule =
     (if \<not> IsSecured d rule then True
      else if IsJwtSecured d rule then True
      else False)"

text \<open>
  Lines 57 to 73: the host and the port of the destination. The name and the port of the
  chosen service are dereferenced.
\<close>

definition hostAndPort ::
  "Env \<Rightarrow> virtualServiceCreator \<Rightarrow> APIRule \<Rightarrow> Rule \<Rightarrow> string \<Rightarrow> (string \<times> 32 word) outcome" where
  "hostAndPort d r api rule serviceNamespace =
     (if routeDirectlyToService d rule then
        (case Rule_Service rule of
           Some s \<Rightarrow>
             (case deref (Service_Name s) of
                Panics \<Rightarrow> Panics
              | Returns n \<Rightarrow>
                  (case deref (Service_Port s) of
                     Panics \<Rightarrow> Panics
                   | Returns p \<Rightarrow> Returns (GetHostLocalDomain d n serviceNamespace, p)))
         | None \<Rightarrow>
             (case deref (Service (Spec api)) of
                Panics \<Rightarrow> Panics
              | Returns s \<Rightarrow>
                  (case deref (Service_Name s) of
                     Panics \<Rightarrow> Panics
                   | Returns n \<Rightarrow>
                       (case deref (Service_Port s) of
                          Panics \<Rightarrow> Panics
                        | Returns p \<Rightarrow> Returns (GetHostLocalDomain d n serviceNamespace, p)))))
      else Returns (oathkeeperSvc r, oathkeeperSvcPort r))"

text \<open>
  Lines 93 to 109: the mutators of a JWT secured rule. \<open>Inl err\<close> is the early
  \<open>return nil, err\<close>.
\<close>

definition jwtMutators :: "Env \<Rightarrow> Rule \<Rightarrow> Headers \<Rightarrow> error + Headers" where
  "jwtMutators d rule headersBuilder =
     (if IsJwtSecured d rule then
        (case GetCookieMutator d rule of
           (cookieMutator, Some err) \<Rightarrow> Inl err
         | (cookieMutator, None) \<Rightarrow>
             (let hb = (if HasCookies d cookieMutator
                        then SetRequestCookies d (ToString d cookieMutator) headersBuilder
                        else headersBuilder)
              in case GetHeaderMutator d rule of
                   (headerMutator, Some err) \<Rightarrow> Inl err
                 | (headerMutator, None) \<Rightarrow>
                     Inr (if HasHeaders d headerMutator
                          then SetRequestHeaders d (Headers headerMutator) hb
                          else hb)))
      else Inr headersBuilder)"

text \<open>
  Lines 48 to 111, the body of the loop over the filtered rules: the route of one rule.
  \<open>time.Second\<close> is \<open>1000000000\<close> nanoseconds and the product wraps at 64 bits.
\<close>

definition ruleRoute ::
  "Env \<Rightarrow> virtualServiceCreator \<Rightarrow> APIRule \<Rightarrow> Rule \<Rightarrow> (error + HTTPRoute) outcome" where
  "ruleRoute d r api rule =
     (let httpRouteBuilder = builders_HTTPRoute;
          serviceNamespace = FindServiceNamespace d api rule
      in case hostAndPort d r api rule serviceNamespace of
           Panics \<Rightarrow> Panics
         | Returns (host, port) \<Rightarrow>
             (let hr1 = HTTPRoute_Route
                          (RouteDestination_Port port
                             (RouteDestination_Host host builders_RouteDestination))
                          httpRouteBuilder;
                  hr2 = (if Path rule = ''/*''
                         then HTTPRoute_Match (MatchRequest_Uri_Prefix ''/'' builders_MatchRequest) hr1
                         else HTTPRoute_Match (MatchRequest_Uri_Regex (Path rule) builders_MatchRequest) hr1)
              in case deref (corsConfig r) of
                   Panics \<Rightarrow> Panics
                 | Returns cors \<Rightarrow>
                     (let hr3 = HTTPRoute_CorsPolicy_set
                                  (CorsPolicy_AllowHeaders_add (AllowHeaders cors)
                                     (CorsPolicy_AllowMethods_add (AllowMethods cors)
                                        (CorsPolicy_AllowOrigins_add (AllowOrigins cors)
                                           builders_CorsPolicy)))
                                  hr2;
                          hr4 = HTTPRoute_Timeout (1000000000 * httpTimeoutDuration r) hr3
                      in case deref (Host (Spec api)) of
                           Panics \<Rightarrow> Panics
                         | Returns h \<Rightarrow>
                             (let headersBuilder =
                                    SetHostHeader d (GetHostWithDomain d h (defaultDomainName r))
                                      (NewHttpRouteHeadersBuilder d)
                              in case jwtMutators d rule headersBuilder of
                                   Inl err \<Rightarrow> Returns (Inl err)
                                 | Inr hb \<Rightarrow> Returns (Inr (HTTPRoute_Headers_set hb hr4))))))"

text \<open>
  The loop of lines 47 to 115 over the filtered rules, with the spec builder as its
  state: a panic or an error of one rule ends it.
\<close>

fun rulesLoop ::
  "Env \<Rightarrow> virtualServiceCreator \<Rightarrow> APIRule \<Rightarrow> Rule list \<Rightarrow> VirtualServiceSpec
     \<Rightarrow> (error + VirtualServiceSpec) outcome" where
  "rulesLoop d r api [] vsSpecBuilder = Returns (Inr vsSpecBuilder)"
| "rulesLoop d r api (rule # rules) vsSpecBuilder =
     (case ruleRoute d r api rule of
        Panics \<Rightarrow> Panics
      | Returns (Inl err) \<Rightarrow> Returns (Inl err)
      | Returns (Inr httpRoute) \<Rightarrow>
          rulesLoop d r api rules (VirtualServiceSpec_HTTP httpRoute vsSpecBuilder))"

text \<open>The loop of lines 123 to 125 over the entries of \<open>additionalLabels\<close>.\<close>

fun labelsLoop :: "(string \<times> string) list \<Rightarrow> VirtualService \<Rightarrow> VirtualService" where
  "labelsLoop [] vsBuilder = vsBuilder"
| "labelsLoop ((k, v) # kvs) vsBuilder = labelsLoop kvs (VirtualService_Label k v vsBuilder)"

text \<open>
  \<open>Create\<close>, lines 39 to 130. \<open>api\<close> is the APIRule that the pointer of the source refers
  to. \<open>fmt.Sprintf("%s-", a)\<close> is \<open>a @ ''-''\<close> and \<open>fmt.Sprintf("%s.%s", a, b)\<close> is
  \<open>a @ ''.'' @ b\<close>.
\<close>

definition Create ::
  "Env \<Rightarrow> virtualServiceCreator \<Rightarrow> APIRule \<Rightarrow> (VirtualService option \<times> error option) outcome" where
  "Create d r api =
     (let virtualServiceNamePrefix = Name (APIRule_ObjectMeta api) @ ''-''
      in case deref (Host (Spec api)) of
           Panics \<Rightarrow> Panics
         | Returns h \<Rightarrow>
             (let sb1 = VirtualServiceSpec_Host (GetHostWithDomain d h (defaultDomainName r))
                          builders_VirtualServiceSpec
              in case deref (Gateway (Spec api)) of
                   Panics \<Rightarrow> Panics
                 | Returns g \<Rightarrow>
                     (let sb2 = VirtualServiceSpec_Gateway g sb1;
                          filteredRules = FilterDuplicatePaths d (Rules (Spec api))
                      in case rulesLoop d r api filteredRules sb2 of
                           Panics \<Rightarrow> Panics
                         | Returns (Inl err) \<Rightarrow> Returns (None, Some err)
                         | Returns (Inr vsSpecBuilder) \<Rightarrow>
                             (let owner = Name (APIRule_ObjectMeta api) @ ''.''
                                            @ Namespace (APIRule_ObjectMeta api);
                                  vb1 = VirtualService_Label (OwnerLabelv1alpha1 d) owner
                                          (VirtualService_Label (OwnerLabel d) owner
                                             (VirtualService_Namespace
                                                (Namespace (APIRule_ObjectMeta api))
                                                (VirtualService_GenerateName
                                                   virtualServiceNamePrefix
                                                   builders_VirtualService)));
                                  vb2 = labelsLoop (additionalLabels r) vb1
                              in Returns (Some (VirtualService_Spec vsSpecBuilder vb2), None)))))"

text \<open>
  The precondition of \<open>Create\<close> on its pointers: the host, the gateway and the CORS
  configuration are set, and every filtered rule that is routed to its service has one, at
  the rule or at the APIRule, with a name and a port.
\<close>

definition backendService :: "APIRule \<Rightarrow> Rule \<Rightarrow> Service option" where
  "backendService api rule =
     (case Rule_Service rule of Some s \<Rightarrow> Some s | None \<Rightarrow> Service (Spec api))"

definition noNilPointer :: "Env \<Rightarrow> virtualServiceCreator \<Rightarrow> APIRule \<Rightarrow> bool" where
  "noNilPointer d r api \<longleftrightarrow>
     Host (Spec api) \<noteq> None \<and> Gateway (Spec api) \<noteq> None \<and> corsConfig r \<noteq> None \<and>
     list_all
       (\<lambda>rule. routeDirectlyToService d rule \<longrightarrow>
          (case backendService api rule of
             None \<Rightarrow> False
           | Some s \<Rightarrow> Service_Name s \<noteq> None \<and> Service_Port s \<noteq> None))
       (FilterDuplicatePaths d (Rules (Spec api)))"

section \<open>internal/processing/processors/virtual\_service\_processor.go\<close>

text \<open>
  Modelled from the spec: \<open>processing.ObjectChange\<close> with its two constructors
  \<open>NewObjectCreateAction\<close> and \<open>NewObjectUpdateAction\<close>, whose source is not among the
  verified files (``ObjectChange: variant {CreateAction(fullObject),
  UpdateAction(existingIdentity, newSpec)}''). Each carries the object pointer that the
  source passes to the constructor.
\<close>

datatype ObjectChange =
    CreateAction "VirtualService option"
  | UpdateAction "VirtualService option"

definition NewObjectCreateAction :: "VirtualService option \<Rightarrow> ObjectChange" where
  "NewObjectCreateAction obj = CreateAction obj"

definition NewObjectUpdateAction :: "VirtualService option \<Rightarrow> ObjectChange" where
  "NewObjectUpdateAction obj = UpdateAction obj"

text \<open>
  The cluster client is a collaborator: \<open>client_List c labels\<close> is the item list that
  \<open>client.List(ctx, &vsList, MatchingLabels(labels))\<close> leaves in \<open>vsList\<close>, with the
  error it returns. The items are pointers to the objects the client decoded.
\<close>

record Client =
  client_List :: "(string \<times> string) list \<Rightarrow> VirtualService list \<times> error option"

text \<open>The processor holds a creator, an implementation of the interface \<open>VirtualServiceCreator\<close>.\<close>

record VirtualServiceProcessor =
  Creator :: "APIRule \<Rightarrow> (VirtualService option \<times> error option) outcome"

definition getDesiredState ::
  "VirtualServiceProcessor \<Rightarrow> APIRule \<Rightarrow> (VirtualService option \<times> error option) outcome" where
  "getDesiredState r api = Creator r api"

definition getActualState ::
  "Env \<Rightarrow> Client \<Rightarrow> APIRule \<Rightarrow> VirtualService option \<times> error option" where
  "getActualState d client api =
     (let labels = GetOwnerLabels d api
      in case client_List client labels of
           (items, Some err) \<Rightarrow> (None, Some err)
         | (items, None) \<Rightarrow>
             (if length items \<ge> 1 then (Some (items ! 0), None) else (None, None)))"

text \<open>The generated \<open>DeepCopy\<close> returns a copy equal to its argument.\<close>

definition DeepCopy :: "VirtualServiceSpec \<Rightarrow> VirtualServiceSpec" where
  "DeepCopy s = s"

text \<open>
  \<open>getObjectChanges\<close>: with an actual object, the desired pointer is dereferenced and the
  spec of the actual object is overwritten.
\<close>

definition getObjectChanges ::
  "VirtualService option \<Rightarrow> VirtualService option \<Rightarrow> ObjectChange outcome" where
  "getObjectChanges desiredVs actualVs =
     (case actualVs of
        Some a \<Rightarrow>
          (case deref desiredVs of
             Panics \<Rightarrow> Panics
           | Returns dv \<Rightarrow>
               Returns (NewObjectUpdateAction (Some (a\<lparr>Spec_vs := DeepCopy (Spec_vs dv)\<rparr>))))
      | None \<Rightarrow> Returns (NewObjectCreateAction desiredVs))"

definition EvaluateReconciliation ::
  "Env \<Rightarrow> VirtualServiceProcessor \<Rightarrow> Client \<Rightarrow> APIRule
     \<Rightarrow> (ObjectChange list \<times> error option) outcome" where
  "EvaluateReconciliation d r client apiRule =
     (case getDesiredState r apiRule of
        Panics \<Rightarrow> Panics
      | Returns (desired, Some err) \<Rightarrow> Returns ([], Some err)
      | Returns (desired, None) \<Rightarrow>
          (case getActualState d client apiRule of
             (actual, Some err) \<Rightarrow> Returns ([], Some err)
           | (actual, None) \<Rightarrow>
               (case getObjectChanges desired actual of
                  Panics \<Rightarrow> Panics
                | Returns changes \<Rightarrow> Returns ([changes], None))))"

text \<open>
  Modelled from the spec: the declaration of \<open>processing.ReconciliationConfig\<close>, the
  ``immutable bundle of defaults (domain name, CORS policy, proxy endpoint, timeouts, extra
  labels)'', of which the source reads six fields.
\<close>

record ReconciliationConfig =
  OathkeeperSvc :: string
  OathkeeperSvcPort :: "32 word"
  CorsConfig_of :: "CorsConfig option"
  AdditionalLabels :: "(string \<times> string) list"
  DefaultDomainName :: string
  HTTPTimeoutDuration :: "64 word"

text \<open>
  \<open>NewVirtualServiceProcessor\<close> of the Istio handler, lines 16 to 27 of
  internal/processing/istio/virtual\_service\_processor.go.
\<close>

definition NewVirtualServiceProcessor :: "Env \<Rightarrow> ReconciliationConfig \<Rightarrow> VirtualServiceProcessor" where
  "NewVirtualServiceProcessor d config =
     \<lparr>Creator = Create d
        \<lparr>oathkeeperSvc = OathkeeperSvc config,
         oathkeeperSvcPort = OathkeeperSvcPort config,
         corsConfig = CorsConfig_of config,
         defaultDomainName = DefaultDomainName config,
         additionalLabels = AdditionalLabels config,
         httpTimeoutDuration = HTTPTimeoutDuration config\<rparr>\<rparr>"

section \<open>GetAccessToken (package jwt)\<close>

text \<open>
  The Go libraries that \<open>GetAccessToken\<close> uses. \<open>cookiejar.New\<close> of net/http/cookiejar
  returns a jar that holds the public suffix list of its options, and a nil error, for
  every argument. The HTTP client is the structure the source fills in.
\<close>

datatype PublicSuffixList = publicsuffix_List

record Jar =
  psList :: "PublicSuffixList option"

definition cookiejar_New :: "PublicSuffixList option \<Rightarrow> Jar option \<times> error option" where
  "cookiejar_New opts = (Some \<lparr>psList = opts\<rparr>, None)"

record tls_Config =
  InsecureSkipVerify :: bool

record http_Transport =
  TLSClientConfig :: tls_Config

record http_Client =
  Transport :: http_Transport
  Client_Timeout :: Duration
  Client_Jar :: "Jar option"

text \<open>
  \<open>clientcredentials.Config\<close>; \<open>EndpointParams\<close> is a \<open>url.Values\<close>, a map from a key to
  its values, and \<open>Add\<close> on a fresh map leaves the one entry.
\<close>

record clientcredentials_Config =
  ClientID :: string
  ClientSecret :: string
  TokenURL :: string
  Scopes :: "string list"
  EndpointParams :: "(string \<times> string list) list"

definition url_Values_Add ::
  "string \<Rightarrow> string \<Rightarrow> (string \<times> string list) list \<Rightarrow> (string \<times> string list) list" where
  "url_Values_Add k v vals =
     (case map_of vals k of
        None \<Rightarrow> vals @ [(k, [v])]
      | Some vs \<Rightarrow> map (\<lambda>(k', vs'). if k' = k then (k', vs' @ [v]) else (k', vs')) vals)"

text \<open>
  Modelled from the spec: the declaration of \<open>jwt.Config\<close>, of which the source reads
  \<open>ClientConfig.ClientTimeout\<close>.
\<close>

record ClientConfig =
  ClientTimeout :: Duration

record Config =
  ClientConfig_of :: ClientConfig

text \<open>
  The token endpoint and the clock are collaborators: \<open>Config_Token e cfg c\<close> is what
  \<open>cfg.Token(ctx)\<close> returns when \<open>ctx\<close> carries the HTTP client \<open>c\<close>, and \<open>expired e t\<close>
  says whether the expiry of \<open>t\<close> has passed. \<open>Token.Valid\<close> of golang.org/x/oauth2 holds
  of a non-nil token with a non-empty access token that has not expired.
\<close>

record oauth2_Env =
  Config_Token :: "clientcredentials_Config \<Rightarrow> http_Client \<Rightarrow> Token option \<times> error option"
  expired :: "Token \<Rightarrow> bool"

definition Token_Valid :: "oauth2_Env \<Rightarrow> Token option \<Rightarrow> bool" where
  "Token_Valid e t =
     (case t of None \<Rightarrow> False | Some tk \<Rightarrow> AccessToken tk \<noteq> [] \<and> \<not> expired e tk)"

text \<open>
  Lines 21 to 27: the HTTP client. \<open>config\<close> is dereferenced for the timeout.
\<close>

definition newHttpClient :: "Config option \<Rightarrow> Jar option \<Rightarrow> http_Client outcome" where
  "newHttpClient config jar =
     (case deref config of
        Panics \<Rightarrow> Panics
      | Returns c \<Rightarrow>
          Returns \<lparr>Transport = \<lparr>TLSClientConfig = \<lparr>InsecureSkipVerify = True\<rparr>\<rparr>,
                   Client_Timeout = ClientTimeout (ClientConfig_of c),
                   Client_Jar = jar\<rparr>)"

text \<open>
  Lines 29 to 32: \<open>tokenType\<close> is the variadic parameter, the list of the arguments
  given; with one or more of them the endpoint parameters are replaced.
\<close>

definition tokenFormatParams :: "clientcredentials_Config \<Rightarrow> string list \<Rightarrow> clientcredentials_Config" where
  "tokenFormatParams oauth2Cfg tokenType =
     (if length tokenType > 0
      then oauth2Cfg\<lparr>EndpointParams := url_Values_Add ''token_format'' (tokenType ! 0) []\<rparr>
      else oauth2Cfg)"

definition GetAccessToken ::
  "oauth2_Env \<Rightarrow> clientcredentials_Config \<Rightarrow> Config option \<Rightarrow> string list
     \<Rightarrow> (string \<times> error option) outcome" where
  "GetAccessToken e oauth2Cfg config tokenType =
     (case cookiejar_New (Some publicsuffix_List) of
        (jar, Some err) \<Rightarrow> Returns ([], Some err)
      | (jar, None) \<Rightarrow>
          (case newHttpClient config jar of
             Panics \<Rightarrow> Panics
           | Returns httpClient \<Rightarrow>
               (let cfg = tokenFormatParams oauth2Cfg tokenType
                in case Config_Token e cfg httpClient of
                     (token, Some err) \<Rightarrow> Returns ([], Some err)
                   | (token, None) \<Rightarrow>
                       (if \<not> Token_Valid e token then Returns ([], Some (TokenInvalid token))
                        else (case deref token of
                                Panics \<Rightarrow> Panics
                              | Returns t \<Rightarrow>
                                  (if TokenType t \<noteq> ''Bearer''
                                   then Returns ([], Some (WrongTokenType (TokenType t)))
                                   else Returns (AccessToken t, None)))))))"

section \<open>A sample environment\<close>

text \<open>
  Modelled from the spec: one implementation of the functions that are parameters of the
  model, on which the model is run on examples. Duplicate-path filtering keeps the first
  rule of each path (``two Rules both with path "/a": the desired Spec contains exactly
  one Route for "/a"''); a rule whose strategies are all \<open>allow\<close> is not secured (Example
  1 of the spec), a rule with the strategy \<open>jwt\<close> is JWT secured; the owner of an object
  is \<open>name.namespace\<close> under both label keys. Where the spec is silent the sample fixes
  a choice: the two label keys, the local domain of a service, the header names, and that
  a mutator definition is malformed when it is the single character \<open>{\<close>. No theorem
  about the source depends on these choices; they only give the examples their values.
\<close>

fun filterSeen :: "string list \<Rightarrow> Rule list \<Rightarrow> Rule list" where
  "filterSeen seen [] = []"
| "filterSeen seen (rule # rules) =
     (if Path rule \<in> set seen then filterSeen seen rules
      else rule # filterSeen (Path rule # seen) rules)"

definition sample_GetCookieMutator :: "Rule \<Rightarrow> CookieMutatorConfig \<times> error option" where
  "sample_GetCookieMutator rule =
     (case map_of (Mutators rule) ''cookie'' of
        None \<Rightarrow> (\<lparr>Cookies = []\<rparr>, None)
      | Some raw \<Rightarrow>
          (if raw = ''{'' then (\<lparr>Cookies = []\<rparr>, Some (CollaboratorError ''cookie mutator''))
           else (\<lparr>Cookies = [(''user'', raw)]\<rparr>, None)))"

definition sample_GetHeaderMutator :: "Rule \<Rightarrow> HeaderMutatorConfig \<times> error option" where
  "sample_GetHeaderMutator rule =
     (case map_of (Mutators rule) ''header'' of
        None \<Rightarrow> (\<lparr>Headers = []\<rparr>, None)
      | Some raw \<Rightarrow>
          (if raw = ''{'' then (\<lparr>Headers = []\<rparr>, Some (CollaboratorError ''header mutator''))
           else (\<lparr>Headers = [(''x-user'', raw)]\<rparr>, None)))"

definition sample_setHeader :: "string \<Rightarrow> string \<Rightarrow> Headers \<Rightarrow> Headers" where
  "sample_setHeader k v hb =
     hb\<lparr>Request := (Request hb)\<lparr>Headers_Set := (Headers_Set (Request hb))(k \<mapsto> v)\<rparr>\<rparr>"

fun sample_setHeaders :: "(string \<times> string) list \<Rightarrow> Headers \<Rightarrow> Headers" where
  "sample_setHeaders [] hb = hb"
| "sample_setHeaders ((k, v) # kvs) hb = sample_setHeaders kvs (sample_setHeader k v hb)"

definition sample_owner :: "APIRule \<Rightarrow> string" where
  "sample_owner api = Name (APIRule_ObjectMeta api) @ ''.'' @ Namespace (APIRule_ObjectMeta api)"

definition sample_Env :: Env where
  "sample_Env =
     \<lparr>FilterDuplicatePaths = filterSeen [],
      IsSecured = (\<lambda>rule. list_ex (\<lambda>s. s \<noteq> ''allow'') (AccessStrategies rule)),
      IsJwtSecured = (\<lambda>rule. ''jwt'' \<in> set (AccessStrategies rule)),
      FindServiceNamespace = (\<lambda>api rule. Namespace (APIRule_ObjectMeta api)),
      GetHostLocalDomain = (\<lambda>name ns. name @ ''.'' @ ns @ ''.svc.cluster.local''),
      GetHostWithDomain = (\<lambda>host domain. if CHR ''.'' \<in> set host then host else host @ ''.'' @ domain),
      GetCookieMutator = sample_GetCookieMutator,
      HasCookies = (\<lambda>c. Cookies c \<noteq> []),
      ToString = (\<lambda>c. concat (map (\<lambda>(k, v). k @ ''='' @ v) (Cookies c))),
      GetHeaderMutator = sample_GetHeaderMutator,
      HasHeaders = (\<lambda>h. Headers h \<noteq> []),
      NewHttpRouteHeadersBuilder =
        \<lparr>Request = \<lparr>Headers_Set = Map.empty, Headers_Add = Map.empty, Headers_Remove = []\<rparr>\<rparr>,
      SetHostHeader = sample_setHeader ''x-forwarded-host'',
      SetRequestCookies = sample_setHeader ''Cookie'',
      SetRequestHeaders = sample_setHeaders,
      OwnerLabel = ''apirule.gateway.kyma-project.io/v1beta1'',
      OwnerLabelv1alpha1 = ''apirule.gateway.kyma-project.io/v1alpha1'',
      GetOwnerLabels = (\<lambda>api. [(''apirule.gateway.kyma-project.io/v1beta1'', sample_owner api),
                               (''apirule.gateway.kyma-project.io/v1alpha1'', sample_owner api)])\<rparr>"

definition sample_creator :: virtualServiceCreator where
  "sample_creator =
     \<lparr>oathkeeperSvc = ''oathkeeper.kyma-system.svc.cluster.local'',
      oathkeeperSvcPort = 4455,
      corsConfig = Some \<lparr>AllowOrigins = [Regex ''.*''], AllowMethods = [''GET'', ''POST''],
                         AllowHeaders = [''Authorization'']\<rparr>,
      defaultDomainName = ''example.com'',
      additionalLabels = [(''team'', ''payments'')],
      httpTimeoutDuration = 180\<rparr>"

definition sample_rules :: "Rule list" where
  "sample_rules =
     [\<lparr>Path = ''/*'', Rule_Service = None, AccessStrategies = [''allow''], Mutators = []\<rparr>,
      \<lparr>Path = ''/orders'', Rule_Service = None,
       AccessStrategies = [''oauth2_introspection''], Mutators = []\<rparr>,
      \<lparr>Path = ''/orders'', Rule_Service = None, AccessStrategies = [''noop''], Mutators = []\<rparr>,
      \<lparr>Path = ''/headers'',
       Rule_Service = Some \<lparr>Service_Name = Some ''hdr'', Service_Port = Some 9000\<rparr>,
       AccessStrategies = [''jwt''],
       Mutators = [(''cookie'', ''alice''), (''header'', ''bob'')]\<rparr>]"

definition sample_api :: APIRule where
  "sample_api =
     \<lparr>APIRule_ObjectMeta =
        \<lparr>Name = ''httpbin'', GenerateName = [], Namespace = ''prod'', ResourceVersion = ''7'',
         Labels = Map.empty\<rparr>,
      Spec = \<lparr>Host = Some ''httpbin'', Gateway = Some ''kyma-system/kyma-gateway'',
              Service = Some \<lparr>Service_Name = Some ''svc'', Service_Port = Some 80\<rparr>,
              Rules = sample_rules\<rparr>\<rparr>"

text \<open>The same APIRule with one more rule, JWT secured, whose cookie mutator is malformed.\<close>

definition sample_api_malformed :: APIRule where
  "sample_api_malformed =
     sample_api\<lparr>Spec := (Spec sample_api)\<lparr>Rules := sample_rules @
        [\<lparr>Path = ''/broken'', Rule_Service = None, AccessStrategies = [''jwt''],
          Mutators = [(''cookie'', ''{'')]\<rparr>]\<rparr>\<rparr>"

text \<open>The object that \<open>Create\<close> returns for the sample APIRule.\<close>

definition sample_cors :: CorsPolicy where
  "sample_cors =
     \<lparr>CorsPolicy_AllowOrigins = [Regex ''.*''], CorsPolicy_AllowMethods = [''GET'', ''POST''],
      CorsPolicy_AllowHeaders = [''Authorization'']\<rparr>"

definition sample_desired :: VirtualService where
  "sample_desired =
     \<lparr>Name = [], GenerateName = ''httpbin-'', Namespace = ''prod'', ResourceVersion = [],
      Labels = [''apirule.gateway.kyma-project.io/v1beta1'' \<mapsto> ''httpbin.prod'',
                ''apirule.gateway.kyma-project.io/v1alpha1'' \<mapsto> ''httpbin.prod'',
                ''team'' \<mapsto> ''payments''],
      Spec_vs =
        \<lparr>Hosts = [''httpbin.example.com''], Gateways = [''kyma-system/kyma-gateway''],
         Http =
           [\<lparr>Match = [\<lparr>Uri = Some (Prefix ''/'')\<rparr>],
             Route = [\<lparr>Destination = \<lparr>Destination_Host = ''svc.prod.svc.cluster.local'',
                                       Destination_Port = 80\<rparr>\<rparr>],
             HTTPRoute_CorsPolicy = Some sample_cors, Timeout = Some 180000000000,
             HTTPRoute_Headers = Some \<lparr>Request =
               \<lparr>Headers_Set = [''x-forwarded-host'' \<mapsto> ''httpbin.example.com''],
                Headers_Add = Map.empty, Headers_Remove = []\<rparr>\<rparr>\<rparr>,
            \<lparr>Match = [\<lparr>Uri = Some (Regex ''/orders'')\<rparr>],
             Route = [\<lparr>Destination =
                        \<lparr>Destination_Host = ''oathkeeper.kyma-system.svc.cluster.local'',
                         Destination_Port = 4455\<rparr>\<rparr>],
             HTTPRoute_CorsPolicy = Some sample_cors, Timeout = Some 180000000000,
             HTTPRoute_Headers = Some \<lparr>Request =
               \<lparr>Headers_Set = [''x-forwarded-host'' \<mapsto> ''httpbin.example.com''],
                Headers_Add = Map.empty, Headers_Remove = []\<rparr>\<rparr>\<rparr>,
            \<lparr>Match = [\<lparr>Uri = Some (Regex ''/headers'')\<rparr>],
             Route = [\<lparr>Destination = \<lparr>Destination_Host = ''hdr.prod.svc.cluster.local'',
                                       Destination_Port = 9000\<rparr>\<rparr>],
             HTTPRoute_CorsPolicy = Some sample_cors, Timeout = Some 180000000000,
             HTTPRoute_Headers = Some \<lparr>Request =
               \<lparr>Headers_Set = [''x-forwarded-host'' \<mapsto> ''httpbin.example.com'',
                               ''Cookie'' \<mapsto> ''user=alice'', ''x-user'' \<mapsto> ''bob''],
                Headers_Add = Map.empty, Headers_Remove = []\<rparr>\<rparr>\<rparr>]\<rparr>\<rparr>"

text \<open>
  The label that a returned object carries under a key; a creator whose extra labels use
  the current ownership key; an object found in the cluster; and a cluster client that
  answers every lookup with the given items and error.
\<close>

definition returnedLabel ::
  "(VirtualService option \<times> error option) outcome \<Rightarrow> string \<Rightarrow> string option" where
  "returnedLabel out k =
     (case out of Returns (Some vs, None) \<Rightarrow> Labels vs k | _ \<Rightarrow> None)"

definition sample_creator_owner :: virtualServiceCreator where
  "sample_creator_owner =
     sample_creator\<lparr>additionalLabels :=
       [(''apirule.gateway.kyma-project.io/v1beta1'', ''payments'')]\<rparr>"

definition sample_actual :: VirtualService where
  "sample_actual =
     \<lparr>Name = ''httpbin-x7k2p'', GenerateName = ''httpbin-'', Namespace = ''prod'',
      ResourceVersion = ''41'',
      Labels = [''apirule.gateway.kyma-project.io/v1beta1'' \<mapsto> ''httpbin.prod''],
      Spec_vs = \<lparr>Hosts = [''old.example.com''], Gateways = [], Http = []\<rparr>\<rparr>"

definition sample_client :: "VirtualService list \<Rightarrow> error option \<Rightarrow> Client" where
  "sample_client items err = \<lparr>client_List = (\<lambda>labels. (items, err))\<rparr>"

definition sample_config :: ReconciliationConfig where
  "sample_config =
     \<lparr>OathkeeperSvc = ''oathkeeper.kyma-system.svc.cluster.local'',
      OathkeeperSvcPort = 4455,
      CorsConfig_of = Some \<lparr>AllowOrigins = [Regex ''.*''], AllowMethods = [''GET'', ''POST''],
                            AllowHeaders = [''Authorization'']\<rparr>,
      AdditionalLabels = [(''team'', ''payments'')],
      DefaultDomainName = ''example.com'',
      HTTPTimeoutDuration = 180\<rparr>"

text \<open>
  A token endpoint that answers a client that skips certificate verification with the
  token of the client id, and every other client with an error; no token has expired.
\<close>

definition sample_token :: "string \<Rightarrow> Token" where
  "sample_token cid =
     (if cid = ''basic'' then \<lparr>AccessToken = ''t0k3n'', TokenType = ''Basic''\<rparr>
      else if cid = ''blank'' then \<lparr>AccessToken = [], TokenType = ''Bearer''\<rparr>
      else \<lparr>AccessToken = ''t0k3n'', TokenType = ''Bearer''\<rparr>)"

definition sample_oauth2 :: oauth2_Env where
  "sample_oauth2 =
     \<lparr>Config_Token = (\<lambda>cfg c.
        if \<not> InsecureSkipVerify (TLSClientConfig (Transport c))
        then (None, Some (CollaboratorError ''x509: certificate signed by unknown authority''))
        else if ClientID cfg = ''unknown''
        then (None, Some (CollaboratorError ''oauth2: cannot fetch token''))
        else (Some (sample_token (ClientID cfg)), None)),
      expired = (\<lambda>t. False)\<rparr>"

definition sample_oauth2_strict :: oauth2_Env where
  "sample_oauth2_strict =
     \<lparr>Config_Token = (\<lambda>cfg c.
        if \<not> InsecureSkipVerify (TLSClientConfig (Transport c))
        then (Some (sample_token ''other''), None)
        else Config_Token sample_oauth2 cfg c),
      expired = (\<lambda>t. False)\<rparr>"

definition sample_oauth2Cfg :: "string \<Rightarrow> clientcredentials_Config" where
  "sample_oauth2Cfg cid =
     \<lparr>ClientID = cid, ClientSecret = ''secret'', TokenURL = ''https://idp.example.com/token'',
      Scopes = [''read''], EndpointParams = []\<rparr>"

definition sample_Config :: Config where
  "sample_Config = \<lparr>ClientConfig_of = \<lparr>ClientTimeout = 10000000000\<rparr>\<rparr>"

section \<open>Auxiliary facts\<close>

lemmas builders_defs =
  builders_RouteDestination_def RouteDestination_Host_def RouteDestination_Port_def
  builders_MatchRequest_def MatchRequest_Uri_Prefix_def MatchRequest_Uri_Regex_def
  builders_CorsPolicy_def CorsPolicy_AllowOrigins_add_def CorsPolicy_AllowMethods_add_def
  CorsPolicy_AllowHeaders_add_def builders_HTTPRoute_def HTTPRoute_Route_def
  HTTPRoute_Match_def HTTPRoute_CorsPolicy_set_def HTTPRoute_Timeout_def
  HTTPRoute_Headers_set_def builders_VirtualServiceSpec_def VirtualServiceSpec_Host_def
  VirtualServiceSpec_Gateway_def VirtualServiceSpec_HTTP_def builders_VirtualService_def
  VirtualService_GenerateName_def VirtualService_Namespace_def VirtualService_Label_def
  VirtualService_Spec_def

lemmas sample_defs =
  sample_Env_def sample_creator_def sample_api_def sample_rules_def
  sample_api_malformed_def sample_GetCookieMutator_def sample_GetHeaderMutator_def
  sample_owner_def

lemmas Create_defs =
  Create_def ruleRoute_def hostAndPort_def routeDirectlyToService_def jwtMutators_def

lemma deref_Returns: "deref p = Returns x \<longleftrightarrow> p = Some x"
  by (cases p) auto

lemma hostAndPort_Returns:
  assumes "hostAndPort d r api rule ns = Returns (host, port)"
  shows "if \<not> IsSecured d rule \<or> IsJwtSecured d rule
         then \<exists>s n. (case Rule_Service rule of Some s' \<Rightarrow> Some s' | None \<Rightarrow> Service (Spec api)) = Some s
                \<and> Service_Name s = Some n \<and> Service_Port s = Some port
                \<and> host = GetHostLocalDomain d n ns
         else host = oathkeeperSvc r \<and> port = oathkeeperSvcPort r"
  using assms
  by (auto simp: hostAndPort_def routeDirectlyToService_def deref_Returns
           split: if_splits option.splits outcome.splits)

text \<open>The headers that the loop body gives the route of a rule whose mutators are well formed.\<close>

lemma jwtMutators_Inr:
  assumes "jwtMutators d rule hb = Inr hb'"
  shows "hb' = (if IsJwtSecured d rule
                then (let c = fst (GetCookieMutator d rule);
                          hb1 = (if HasCookies d c then SetRequestCookies d (ToString d c) hb else hb);
                          h = fst (GetHeaderMutator d rule)
                      in if HasHeaders d h then SetRequestHeaders d (Headers h) hb1 else hb1)
                else hb)"
    and "IsJwtSecured d rule \<Longrightarrow> snd (GetCookieMutator d rule) = None \<and> snd (GetHeaderMutator d rule) = None"
  using assms
  by (auto simp: jwtMutators_def Let_def split: if_splits prod.splits option.splits)

lemma jwtMutators_Inl:
  "jwtMutators d rule hb = Inl err \<longleftrightarrow>
     IsJwtSecured d rule \<and>
     (snd (GetCookieMutator d rule) = Some err \<or>
      snd (GetCookieMutator d rule) = None \<and> snd (GetHeaderMutator d rule) = Some err)"
  by (auto simp: jwtMutators_def Let_def split: if_splits prod.splits option.splits)

lemma ruleRoute_Inr:
  assumes "ruleRoute d r api rule = Returns (Inr hr)"
  shows "\<exists>host port cors h hb.
           hostAndPort d r api rule (FindServiceNamespace d api rule) = Returns (host, port)
         \<and> corsConfig r = Some cors \<and> Host (Spec api) = Some h
         \<and> jwtMutators d rule
              (SetHostHeader d (GetHostWithDomain d h (defaultDomainName r))
                 (NewHttpRouteHeadersBuilder d)) = Inr hb
         \<and> hr = \<lparr>Match = [\<lparr>Uri = Some (if Path rule = ''/*'' then Prefix ''/''
                                          else Regex (Path rule))\<rparr>],
                  Route = [\<lparr>Destination = \<lparr>Destination_Host = host, Destination_Port = port\<rparr>\<rparr>],
                  HTTPRoute_CorsPolicy =
                    Some \<lparr>CorsPolicy_AllowOrigins = AllowOrigins cors,
                          CorsPolicy_AllowMethods = AllowMethods cors,
                          CorsPolicy_AllowHeaders = AllowHeaders cors\<rparr>,
                  Timeout = Some (1000000000 * httpTimeoutDuration r),
                  HTTPRoute_Headers = Some hb\<rparr>"
  using assms
  by (auto simp: ruleRoute_def Let_def builders_defs deref_Returns
           split: outcome.splits prod.splits sum.splits if_splits)

lemma rulesLoop_Inr:
  "rulesLoop d r api rules sb = Returns (Inr sb') \<Longrightarrow>
     \<exists>hrs. list_all2 (\<lambda>rule hr. ruleRoute d r api rule = Returns (Inr hr)) rules hrs
         \<and> sb' = sb\<lparr>Http := Http sb @ hrs\<rparr>"
proof (induction rules arbitrary: sb)
  case Nil
  then show ?case by simp
next
  case (Cons rule rules)
  from Cons.prems obtain hr where
    hr: "ruleRoute d r api rule = Returns (Inr hr)" and
    rest: "rulesLoop d r api rules (VirtualServiceSpec_HTTP hr sb) = Returns (Inr sb')"
    by (auto split: outcome.splits sum.splits)
  from Cons.IH [OF rest] obtain hrs where
    hrs: "list_all2 (\<lambda>rule hr. ruleRoute d r api rule = Returns (Inr hr)) rules hrs" and
    sb': "sb' = (VirtualServiceSpec_HTTP hr sb)\<lparr>Http := Http (VirtualServiceSpec_HTTP hr sb) @ hrs\<rparr>"
    by blast
  have "list_all2 (\<lambda>rule hr. ruleRoute d r api rule = Returns (Inr hr)) (rule # rules) (hr # hrs)"
    using hr hrs by simp
  moreover have "sb' = sb\<lparr>Http := Http sb @ (hr # hrs)\<rparr>"
    using sb' by (simp add: VirtualServiceSpec_HTTP_def)
  ultimately show ?case by blast
qed

lemma labelsLoop_Labels:
  "labelsLoop kvs vb = vb\<lparr>Labels := Labels vb ++ map_of (rev kvs)\<rparr>"
proof (induction kvs arbitrary: vb)
  case Nil
  then show ?case by simp
next
  case (Cons kv kvs)
  obtain k v where kv: "kv = (k, v)" by (cases kv)
  show ?case
    unfolding kv by (simp add: Cons.IH VirtualService_Label_def map_add_def fun_eq_iff
        split: option.splits) 
qed

lemma Create_Some:
  assumes "Create d r api = Returns (Some vs, e)"
  shows "\<exists>h g hrs.
           e = None \<and> Host (Spec api) = Some h \<and> Gateway (Spec api) = Some g
         \<and> list_all2 (\<lambda>rule hr. ruleRoute d r api rule = Returns (Inr hr))
              (FilterDuplicatePaths d (Rules (Spec api))) hrs
         \<and> vs = \<lparr>Name = [], GenerateName = Name (APIRule_ObjectMeta api) @ ''-'',
                  Namespace = Namespace (APIRule_ObjectMeta api), ResourceVersion = [],
                  Labels = [OwnerLabel d \<mapsto> Name (APIRule_ObjectMeta api) @ ''.'' @ Namespace (APIRule_ObjectMeta api),
                            OwnerLabelv1alpha1 d \<mapsto> Name (APIRule_ObjectMeta api) @ ''.'' @ Namespace (APIRule_ObjectMeta api)]
                           ++ map_of (rev (additionalLabels r)),
                  Spec_vs = \<lparr>Hosts = [GetHostWithDomain d h (defaultDomainName r)],
                             Gateways = [g], Http = hrs\<rparr>\<rparr>"
proof -
  from assms obtain h g sb where
    h: "Host (Spec api) = Some h" and g: "Gateway (Spec api) = Some g" and
    loop: "rulesLoop d r api (FilterDuplicatePaths d (Rules (Spec api)))
             (VirtualServiceSpec_Gateway g
                (VirtualServiceSpec_Host (GetHostWithDomain d h (defaultDomainName r))
                   builders_VirtualServiceSpec)) = Returns (Inr sb)" and
    e: "e = None" and
    vs: "vs = VirtualService_Spec sb
               (labelsLoop (additionalLabels r)
                  (VirtualService_Label (OwnerLabelv1alpha1 d)
                     (Name (APIRule_ObjectMeta api) @ ''.'' @ Namespace (APIRule_ObjectMeta api))
                     (VirtualService_Label (OwnerLabel d)
                        (Name (APIRule_ObjectMeta api) @ ''.'' @ Namespace (APIRule_ObjectMeta api))
                        (VirtualService_Namespace (Namespace (APIRule_ObjectMeta api))
                           (VirtualService_GenerateName (Name (APIRule_ObjectMeta api) @ ''-'')
                              builders_VirtualService)))))"
    by (auto simp: Create_def Let_def deref_Returns split: outcome.splits sum.splits)
  from rulesLoop_Inr [OF loop] obtain hrs where
    hrs: "list_all2 (\<lambda>rule hr. ruleRoute d r api rule = Returns (Inr hr))
            (FilterDuplicatePaths d (Rules (Spec api))) hrs" and
    sb: "sb = (VirtualServiceSpec_Gateway g
                (VirtualServiceSpec_Host (GetHostWithDomain d h (defaultDomainName r))
                   builders_VirtualServiceSpec))\<lparr>Http := Http (VirtualServiceSpec_Gateway g
                (VirtualServiceSpec_Host (GetHostWithDomain d h (defaultDomainName r))
                   builders_VirtualServiceSpec)) @ hrs\<rparr>"
    by blast
  have "vs = \<lparr>Name = [], GenerateName = Name (APIRule_ObjectMeta api) @ ''-'',
                  Namespace = Namespace (APIRule_ObjectMeta api), ResourceVersion = [],
                  Labels = [OwnerLabel d \<mapsto> Name (APIRule_ObjectMeta api) @ ''.'' @ Namespace (APIRule_ObjectMeta api),
                            OwnerLabelv1alpha1 d \<mapsto> Name (APIRule_ObjectMeta api) @ ''.'' @ Namespace (APIRule_ObjectMeta api)]
                           ++ map_of (rev (additionalLabels r)),
                  Spec_vs = \<lparr>Hosts = [GetHostWithDomain d h (defaultDomainName r)],
                             Gateways = [g], Http = hrs\<rparr>\<rparr>"
    unfolding vs sb by (simp add: labelsLoop_Labels builders_defs)
  with h g e hrs show ?thesis by blast
qed

lemma ruleRoute_noNilPointer:
  assumes "noNilPointer d r api"
      and "rule \<in> set (FilterDuplicatePaths d (Rules (Spec api)))"
  shows "ruleRoute d r api rule \<noteq> Panics"
    and "ruleRoute d r api rule = Returns (Inl err) \<longleftrightarrow>
           IsJwtSecured d rule \<and>
           (snd (GetCookieMutator d rule) = Some err \<or>
            snd (GetCookieMutator d rule) = None \<and> snd (GetHeaderMutator d rule) = Some err)"
proof -
  from assms obtain h cors where
    h: "Host (Spec api) = Some h" and cors: "corsConfig r = Some cors" and
    svc: "routeDirectlyToService d rule \<longrightarrow>
            (case backendService api rule of
               None \<Rightarrow> False
             | Some s \<Rightarrow> Service_Name s \<noteq> None \<and> Service_Port s \<noteq> None)"
    by (auto simp: noNilPointer_def list_all_iff)
  have "\<exists>host port. hostAndPort d r api rule (FindServiceNamespace d api rule) = Returns (host, port)"
    using svc
    by (auto simp: hostAndPort_def backendService_def split: option.splits)
  then obtain host port where
    hp: "hostAndPort d r api rule (FindServiceNamespace d api rule) = Returns (host, port)"
    by blast
  show "ruleRoute d r api rule \<noteq> Panics"
    by (simp add: ruleRoute_def Let_def hp h cors split: sum.splits)
  have "ruleRoute d r api rule = Returns (Inl err) \<longleftrightarrow>
          jwtMutators d rule
            (SetHostHeader d (GetHostWithDomain d h (defaultDomainName r))
               (NewHttpRouteHeadersBuilder d)) = Inl err"
    by (simp add: ruleRoute_def Let_def hp h cors split: sum.splits)
  then show "ruleRoute d r api rule = Returns (Inl err) \<longleftrightarrow>
           IsJwtSecured d rule \<and>
           (snd (GetCookieMutator d rule) = Some err \<or>
            snd (GetCookieMutator d rule) = None \<and> snd (GetHeaderMutator d rule) = Some err)"
    by (simp add: jwtMutators_Inl)
qed

lemma rulesLoop_first_error:
  assumes "\<forall>rule\<in>set rules. ruleRoute d r api rule \<noteq> Panics"
      and "\<exists>rule\<in>set rules. \<exists>err. ruleRoute d r api rule = Returns (Inl err)"
  shows "\<exists>i err. i < length rules
           \<and> ruleRoute d r api (rules ! i) = Returns (Inl err)
           \<and> (\<forall>j<i. \<exists>hr. ruleRoute d r api (rules ! j) = Returns (Inr hr))
           \<and> rulesLoop d r api rules sb = Returns (Inl err)"
  using assms
proof (induction rules arbitrary: sb)
  case Nil
  then show ?case by simp
next
  case (Cons rule rules)
  show ?case
  proof (cases "ruleRoute d r api rule")
    case Panics
    with Cons.prems(1) show ?thesis by simp
  next
    case (Returns res)
    show ?thesis
    proof (cases res)
      case (Inl err)
      with Returns have "ruleRoute d r api ((rule # rules) ! 0) = Returns (Inl err)"
        and "rulesLoop d r api (rule # rules) sb = Returns (Inl err)"
        by simp_all
      then show ?thesis by fastforce
    next
      case (Inr hr)
      with Returns have hr: "ruleRoute d r api rule = Returns (Inr hr)" by simp
      with Cons.prems have
        "\<forall>rule\<in>set rules. ruleRoute d r api rule \<noteq> Panics" and
        "\<exists>rule\<in>set rules. \<exists>err. ruleRoute d r api rule = Returns (Inl err)"
        by auto
      from Cons.IH [OF this, of "VirtualServiceSpec_HTTP hr sb"] obtain i err where
        i: "i < length rules" and
        fails: "ruleRoute d r api (rules ! i) = Returns (Inl err)" and
        before: "\<forall>j<i. \<exists>hr. ruleRoute d r api (rules ! j) = Returns (Inr hr)" and
        loop: "rulesLoop d r api rules (VirtualServiceSpec_HTTP hr sb) = Returns (Inl err)"
        by blast
      have "Suc i < length (rule # rules)" using i by simp
      moreover have "ruleRoute d r api ((rule # rules) ! Suc i) = Returns (Inl err)"
        using fails by simp
      moreover have "\<forall>j<Suc i. \<exists>hr. ruleRoute d r api ((rule # rules) ! j) = Returns (Inr hr)"
      proof (intro allI impI)
        fix j assume "j < Suc i"
        then show "\<exists>hr. ruleRoute d r api ((rule # rules) ! j) = Returns (Inr hr)"
          using hr before by (cases j) auto
      qed
      moreover have "rulesLoop d r api (rule # rules) sb = Returns (Inl err)"
        using hr loop by simp
      ultimately show ?thesis by blast
    qed
  qed
qed

lemma rulesLoop_all_Inr:
  assumes "\<forall>rule\<in>set rules. \<exists>hr. ruleRoute d r api rule = Returns (Inr hr)"
  shows "\<exists>sb'. rulesLoop d r api rules sb = Returns (Inr sb')"
  using assms
proof (induction rules arbitrary: sb)
  case Nil
  then show ?case by simp
next
  case (Cons rule rules)
  then obtain hr where hr: "ruleRoute d r api rule = Returns (Inr hr)" by auto
  from Cons.prems have "\<forall>rule\<in>set rules. \<exists>hr. ruleRoute d r api rule = Returns (Inr hr)"
    by simp
  from Cons.IH [OF this, of "VirtualServiceSpec_HTTP hr sb"] hr show ?case
    by simp
qed

lemma Create_returns_object:
  assumes nn: "noNilPointer d r api"
      and ok: "\<forall>rule\<in>set (FilterDuplicatePaths d (Rules (Spec api))).
                 \<not> (IsJwtSecured d rule \<and>
                    (snd (GetCookieMutator d rule) \<noteq> None \<or>
                     snd (GetHeaderMutator d rule) \<noteq> None))"
  shows "\<exists>vs. Create d r api = Returns (Some vs, None)"
proof -
  from nn obtain h g where h: "Host (Spec api) = Some h" and g: "Gateway (Spec api) = Some g"
    by (auto simp: noNilPointer_def)
  have "\<forall>rule\<in>set (FilterDuplicatePaths d (Rules (Spec api))).
          \<exists>hr. ruleRoute d r api rule = Returns (Inr hr)"
  proof
    fix rule assume rule: "rule \<in> set (FilterDuplicatePaths d (Rules (Spec api)))"
    show "\<exists>hr. ruleRoute d r api rule = Returns (Inr hr)"
    proof (cases "ruleRoute d r api rule")
      case Panics
      with ruleRoute_noNilPointer(1) [OF nn rule] show ?thesis by simp
    next
      case (Returns res)
      show ?thesis
      proof (cases res)
        case (Inl err)
        with Returns ruleRoute_noNilPointer(2) [OF nn rule, of err] ok rule
        show ?thesis by auto
      next
        case (Inr hr)
        with Returns show ?thesis by simp
      qed
    qed
  qed
  from rulesLoop_all_Inr [OF this] obtain sb where
    "rulesLoop d r api (FilterDuplicatePaths d (Rules (Spec api)))
       (VirtualServiceSpec_Gateway g
          (VirtualServiceSpec_Host (GetHostWithDomain d h (defaultDomainName r))
             builders_VirtualServiceSpec)) = Returns (Inr sb)"
    by blast
  then show ?thesis
    using h g by (simp add: Create_def Let_def)
qed

section \<open>Running the model on the samples\<close>

lemma Create_sample:
  "Create sample_Env sample_creator sample_api = Returns (Some sample_desired, None)"
  by (simp add: Create_defs Let_def sample_defs builders_defs sample_desired_def sample_cors_def
        sample_setHeader_def)


lemma Create_sample_malformed:
  "Create sample_Env sample_creator sample_api_malformed =
     Returns (None, Some (CollaboratorError ''cookie mutator''))"
  by (simp add: Create_defs Let_def sample_defs builders_defs sample_setHeader_def)

lemma noNilPointer_sample: "noNilPointer sample_Env sample_creator sample_api"
  by (simp add: noNilPointer_def backendService_def routeDirectlyToService_def sample_defs)

lemma noNilPointer_sample_malformed:
  "noNilPointer sample_Env sample_creator sample_api_malformed"
  by (simp add: noNilPointer_def backendService_def routeDirectlyToService_def sample_defs)

lemma Create_routes:
  assumes "Create d r api = Returns (Some vs, e)"
      and "i < length (FilterDuplicatePaths d (Rules (Spec api)))"
  shows "length (Http (Spec_vs vs)) = length (FilterDuplicatePaths d (Rules (Spec api)))"
    and "ruleRoute d r api (FilterDuplicatePaths d (Rules (Spec api)) ! i)
           = Returns (Inr (Http (Spec_vs vs) ! i))"
proof -
  from Create_Some [OF assms(1)] obtain hrs where
    all: "list_all2 (\<lambda>rule hr. ruleRoute d r api rule = Returns (Inr hr))
            (FilterDuplicatePaths d (Rules (Spec api))) hrs" and
    http: "Http (Spec_vs vs) = hrs"
    by auto
  show "length (Http (Spec_vs vs)) = length (FilterDuplicatePaths d (Rules (Spec api)))"
    using all http by (simp add: list_all2_lengthD)
  show "ruleRoute d r api (FilterDuplicatePaths d (Rules (Spec api)) ! i)
           = Returns (Inr (Http (Spec_vs vs) ! i))"
    using list_all2_nthD [OF all assms(2)] http by simp
qed

section \<open>The desired state\<close>

text \<open>
  C1. Whenever \<open>Create\<close> returns an object, the route of the \<open>i\<close>-th rule that is left
  after duplicate-path filtering has one destination. If the rule is not secured or is
  JWT secured, the destination is the service of the rule when it has one and the service
  of the APIRule otherwise: the host is \<open>GetHostLocalDomain\<close> of the service name and of
  the service namespace, the port is the service port. For every other rule the
  destination is the Oathkeeper service and port of the creator.
\<close>

theorem Create_route_destination:
  assumes "Create d r api = Returns (Some vs, e)"
      and "i < length (FilterDuplicatePaths d (Rules (Spec api)))"
      and "rule = FilterDuplicatePaths d (Rules (Spec api)) ! i"
  shows "if \<not> IsSecured d rule \<or> IsJwtSecured d rule
         then \<exists>s n p.
                (case Rule_Service rule of Some s' \<Rightarrow> Some s' | None \<Rightarrow> Service (Spec api)) = Some s
              \<and> Service_Name s = Some n \<and> Service_Port s = Some p
              \<and> Route (Http (Spec_vs vs) ! i) =
                  [\<lparr>Destination =
                      \<lparr>Destination_Host = GetHostLocalDomain d n (FindServiceNamespace d api rule),
                       Destination_Port = p\<rparr>\<rparr>]
         else Route (Http (Spec_vs vs) ! i) =
                [\<lparr>Destination = \<lparr>Destination_Host = oathkeeperSvc r,
                                  Destination_Port = oathkeeperSvcPort r\<rparr>\<rparr>]"
proof -
  have "ruleRoute d r api rule = Returns (Inr (Http (Spec_vs vs) ! i))"
    using Create_routes(2) [OF assms(1,2)] assms(3) by simp
  from ruleRoute_Inr [OF this] obtain host port where
    hp: "hostAndPort d r api rule (FindServiceNamespace d api rule) = Returns (host, port)" and
    route: "Route (Http (Spec_vs vs) ! i) =
              [\<lparr>Destination = \<lparr>Destination_Host = host, Destination_Port = port\<rparr>\<rparr>]"
    by auto
  from hostAndPort_Returns [OF hp] route show ?thesis
    by (auto split: if_splits)
qed

theorem Create_route_destination_witness:
  "Create sample_Env sample_creator sample_api = Returns (Some sample_desired, None)
   \<and> (2::nat) < length (FilterDuplicatePaths sample_Env (Rules (Spec sample_api)))
   \<and> Route (Http (Spec_vs sample_desired) ! 0) =
        [\<lparr>Destination = \<lparr>Destination_Host = ''svc.prod.svc.cluster.local'',
                          Destination_Port = 80\<rparr>\<rparr>]
   \<and> Route (Http (Spec_vs sample_desired) ! 1) =
        [\<lparr>Destination = \<lparr>Destination_Host = ''oathkeeper.kyma-system.svc.cluster.local'',
                          Destination_Port = 4455\<rparr>\<rparr>]
   \<and> Route (Http (Spec_vs sample_desired) ! 2) =
        [\<lparr>Destination = \<lparr>Destination_Host = ''hdr.prod.svc.cluster.local'',
                          Destination_Port = 9000\<rparr>\<rparr>]"
proof -
  have len: "length (FilterDuplicatePaths sample_Env (Rules (Spec sample_api))) = 3"
    by (simp add: sample_defs)
  have r0: "(0::nat) < length (FilterDuplicatePaths sample_Env (Rules (Spec sample_api)))"
   and r1: "(1::nat) < length (FilterDuplicatePaths sample_Env (Rules (Spec sample_api)))"
   and r2: "(2::nat) < length (FilterDuplicatePaths sample_Env (Rules (Spec sample_api)))"
    by (simp_all add: len)
  have "Route (Http (Spec_vs sample_desired) ! 0) =
        [\<lparr>Destination = \<lparr>Destination_Host = ''svc.prod.svc.cluster.local'',
                          Destination_Port = 80\<rparr>\<rparr>]"
    using Create_route_destination [OF Create_sample r0 refl]
    by (simp add: sample_defs)
  moreover have "Route (Http (Spec_vs sample_desired) ! 1) =
        [\<lparr>Destination = \<lparr>Destination_Host = ''oathkeeper.kyma-system.svc.cluster.local'',
                          Destination_Port = 4455\<rparr>\<rparr>]"
    using Create_route_destination [OF Create_sample r1 refl]
    by (simp add: sample_defs)
  moreover have "Route (Http (Spec_vs sample_desired) ! 2) =
        [\<lparr>Destination = \<lparr>Destination_Host = ''hdr.prod.svc.cluster.local'',
                          Destination_Port = 9000\<rparr>\<rparr>]"
    using Create_route_destination [OF Create_sample r2 refl]
    by (simp add: sample_defs)
  ultimately show ?thesis using Create_sample r2 by simp
qed


text \<open>
  C3. Whenever \<open>Create\<close> returns an object, the route of the \<open>i\<close>-th filtered rule has one
  match: a URI prefix match on \<open>/\<close> if the path of the rule is exactly \<open>/*\<close>, and
  otherwise a URI regex match whose pattern is the path itself, unchanged.
\<close>

theorem Create_path_match:
  assumes "Create d r api = Returns (Some vs, e)"
      and "i < length (FilterDuplicatePaths d (Rules (Spec api)))"
      and "rule = FilterDuplicatePaths d (Rules (Spec api)) ! i"
  shows "Match (Http (Spec_vs vs) ! i) =
           [\<lparr>Uri = Some (if Path rule = ''/*'' then Prefix ''/'' else Regex (Path rule))\<rparr>]"
proof -
  have "ruleRoute d r api rule = Returns (Inr (Http (Spec_vs vs) ! i))"
    using Create_routes(2) [OF assms(1,2)] assms(3) by simp
  from ruleRoute_Inr [OF this] show ?thesis
    by auto
qed

theorem Create_path_match_witness:
  "Create sample_Env sample_creator sample_api = Returns (Some sample_desired, None)
   \<and> (1::nat) < length (FilterDuplicatePaths sample_Env (Rules (Spec sample_api)))
   \<and> Match (Http (Spec_vs sample_desired) ! 0) = [\<lparr>Uri = Some (Prefix ''/'')\<rparr>]
   \<and> Match (Http (Spec_vs sample_desired) ! 1) = [\<lparr>Uri = Some (Regex ''/orders'')\<rparr>]"
proof -
  have r0: "(0::nat) < length (FilterDuplicatePaths sample_Env (Rules (Spec sample_api)))"
   and r1: "(1::nat) < length (FilterDuplicatePaths sample_Env (Rules (Spec sample_api)))"
    by (simp_all add: sample_defs)
  have "Match (Http (Spec_vs sample_desired) ! 0) = [\<lparr>Uri = Some (Prefix ''/'')\<rparr>]"
    using Create_path_match [OF Create_sample r0 refl] by (simp add: sample_defs)
  moreover have "Match (Http (Spec_vs sample_desired) ! 1) = [\<lparr>Uri = Some (Regex ''/orders'')\<rparr>]"
    using Create_path_match [OF Create_sample r1 refl] by (simp add: sample_defs)
  ultimately show ?thesis using Create_sample r1 by simp
qed

text \<open>
  C6. Whenever \<open>Create\<close> returns an object, its spec has as many HTTP routes as there are
  rules left after duplicate-path filtering, and the routes are in the order of these
  rules: the \<open>i\<close>-th route is the one the loop body builds from the \<open>i\<close>-th rule. And
  \<open>Create\<close> does return an object when no pointer it dereferences is nil and no mutator
  of a filtered JWT secured rule fails.
\<close>

theorem Create_route_count:
  "(Create d r api = Returns (Some vs, e) \<longrightarrow>
      length (Http (Spec_vs vs)) = length (FilterDuplicatePaths d (Rules (Spec api)))
    \<and> list_all2 (\<lambda>rule route. ruleRoute d r api rule = Returns (Inr route))
         (FilterDuplicatePaths d (Rules (Spec api))) (Http (Spec_vs vs)))
   \<and> (noNilPointer d r api
       \<and> list_all (\<lambda>rule. \<not> (IsJwtSecured d rule \<and>
                     (snd (GetCookieMutator d rule) \<noteq> None \<or>
                      snd (GetHeaderMutator d rule) \<noteq> None)))
           (FilterDuplicatePaths d (Rules (Spec api))) \<longrightarrow>
       (\<exists>vs'. Create d r api = Returns (Some vs', None)))"
proof (intro conjI impI)
  assume c: "Create d r api = Returns (Some vs, e)"
  from Create_Some [OF c] obtain hrs where
    all: "list_all2 (\<lambda>rule hr. ruleRoute d r api rule = Returns (Inr hr))
            (FilterDuplicatePaths d (Rules (Spec api))) hrs" and
    http: "Http (Spec_vs vs) = hrs"
    by auto
  then show "length (Http (Spec_vs vs)) = length (FilterDuplicatePaths d (Rules (Spec api)))"
    and "list_all2 (\<lambda>rule route. ruleRoute d r api rule = Returns (Inr route))
         (FilterDuplicatePaths d (Rules (Spec api))) (Http (Spec_vs vs))"
    by (simp_all add: list_all2_lengthD)
next
  assume "noNilPointer d r api
       \<and> list_all (\<lambda>rule. \<not> (IsJwtSecured d rule \<and>
                     (snd (GetCookieMutator d rule) \<noteq> None \<or>
                      snd (GetHeaderMutator d rule) \<noteq> None)))
           (FilterDuplicatePaths d (Rules (Spec api)))"
  then show "\<exists>vs'. Create d r api = Returns (Some vs', None)"
    using Create_returns_object [of d r api] by (simp add: list_all_iff)
qed

theorem Create_route_count_witness:
  "noNilPointer sample_Env sample_creator sample_api
   \<and> list_all (\<lambda>rule. \<not> (IsJwtSecured sample_Env rule \<and>
                     (snd (GetCookieMutator sample_Env rule) \<noteq> None \<or>
                      snd (GetHeaderMutator sample_Env rule) \<noteq> None)))
           (FilterDuplicatePaths sample_Env (Rules (Spec sample_api)))
   \<and> Create sample_Env sample_creator sample_api = Returns (Some sample_desired, None)
   \<and> length (Rules (Spec sample_api)) = 4
   \<and> length (FilterDuplicatePaths sample_Env (Rules (Spec sample_api))) = 3
   \<and> length (Http (Spec_vs sample_desired)) = 3
   \<and> map Match (Http (Spec_vs sample_desired)) =
        [[\<lparr>Uri = Some (Prefix ''/'')\<rparr>], [\<lparr>Uri = Some (Regex ''/orders'')\<rparr>],
         [\<lparr>Uri = Some (Regex ''/headers'')\<rparr>]]"
proof -
  note t = Create_route_count [where d = sample_Env and r = sample_creator and api = sample_api
             and vs = sample_desired and e = None]
  have ok: "list_all (\<lambda>rule. \<not> (IsJwtSecured sample_Env rule \<and>
                     (snd (GetCookieMutator sample_Env rule) \<noteq> None \<or>
                      snd (GetHeaderMutator sample_Env rule) \<noteq> None)))
           (FilterDuplicatePaths sample_Env (Rules (Spec sample_api)))"
    by (simp add: sample_defs)
  from t noNilPointer_sample ok have "\<exists>vs'. Create sample_Env sample_creator sample_api = Returns (Some vs', None)"
    by blast
  from t Create_sample have
    "length (Http (Spec_vs sample_desired)) =
       length (FilterDuplicatePaths sample_Env (Rules (Spec sample_api)))"
    by blast
  moreover have "length (FilterDuplicatePaths sample_Env (Rules (Spec sample_api))) = 3"
    and "length (Rules (Spec sample_api)) = 4"
    by (simp_all add: sample_defs)
  moreover have "map Match (Http (Spec_vs sample_desired)) =
        [[\<lparr>Uri = Some (Prefix ''/'')\<rparr>], [\<lparr>Uri = Some (Regex ''/orders'')\<rparr>],
         [\<lparr>Uri = Some (Regex ''/headers'')\<rparr>]]"
    by (simp add: sample_desired_def)
  ultimately show ?thesis
    using noNilPointer_sample ok Create_sample by simp
qed

text \<open>
  C4. Whenever \<open>Create\<close> returns an object, the headers of the route of a filtered rule
  are the host header alone if the rule is not JWT secured; if it is, the request cookies
  are set exactly when the cookie mutator has cookies and the request headers exactly when
  the header mutator has headers. If for some filtered JWT secured rule the construction
  of the cookie or of the header mutator fails, \<open>Create\<close> returns no object; and when no
  pointer it dereferences is nil it returns, with no object, the error of the first rule
  whose construction fails.
\<close>

theorem Create_mutators:
  assumes "rules = FilterDuplicatePaths d (Rules (Spec api))"
  shows "(\<forall>vs e h i. Create d r api = Returns (Some vs, e) \<and> Host (Spec api) = Some h
             \<and> i < length rules \<longrightarrow>
            HTTPRoute_Headers (Http (Spec_vs vs) ! i) =
              Some (let rule = rules ! i;
                        hb = SetHostHeader d (GetHostWithDomain d h (defaultDomainName r))
                               (NewHttpRouteHeadersBuilder d);
                        c = fst (GetCookieMutator d rule);
                        hb1 = (if HasCookies d c then SetRequestCookies d (ToString d c) hb else hb);
                        hm = fst (GetHeaderMutator d rule);
                        hb2 = (if HasHeaders d hm then SetRequestHeaders d (Headers hm) hb1 else hb1)
                    in if IsJwtSecured d rule then hb2 else hb))
       \<and> ((\<exists>rule\<in>set rules. IsJwtSecured d rule \<and>
              (snd (GetCookieMutator d rule) \<noteq> None \<or> snd (GetHeaderMutator d rule) \<noteq> None)) \<longrightarrow>
            (\<forall>vs e. Create d r api \<noteq> Returns (Some vs, e)) \<and>
            (noNilPointer d r api \<longrightarrow>
               (\<exists>i err. i < length rules
                  \<and> IsJwtSecured d (rules ! i)
                  \<and> (snd (GetCookieMutator d (rules ! i)) = Some err \<or>
                     snd (GetCookieMutator d (rules ! i)) = None \<and>
                     snd (GetHeaderMutator d (rules ! i)) = Some err)
                  \<and> (\<forall>j<i. \<not> (IsJwtSecured d (rules ! j) \<and>
                              (snd (GetCookieMutator d (rules ! j)) \<noteq> None \<or>
                               snd (GetHeaderMutator d (rules ! j)) \<noteq> None)))
                  \<and> Create d r api = Returns (None, Some err))))"
proof (intro conjI allI impI)
  fix vs e h i
  assume a: "Create d r api = Returns (Some vs, e) \<and> Host (Spec api) = Some h \<and> i < length rules"
  then have i: "i < length (FilterDuplicatePaths d (Rules (Spec api)))"
    using assms by simp
  have "ruleRoute d r api (rules ! i) = Returns (Inr (Http (Spec_vs vs) ! i))"
    using Create_routes(2) [OF _ i] a assms by simp
  from ruleRoute_Inr [OF this] a obtain hb where
    hb: "jwtMutators d (rules ! i)
           (SetHostHeader d (GetHostWithDomain d h (defaultDomainName r))
              (NewHttpRouteHeadersBuilder d)) = Inr hb" and
    hdr: "HTTPRoute_Headers (Http (Spec_vs vs) ! i) = Some hb"
    by auto
  show "HTTPRoute_Headers (Http (Spec_vs vs) ! i) =
              Some (let rule = rules ! i;
                        hb = SetHostHeader d (GetHostWithDomain d h (defaultDomainName r))
                               (NewHttpRouteHeadersBuilder d);
                        c = fst (GetCookieMutator d rule);
                        hb1 = (if HasCookies d c then SetRequestCookies d (ToString d c) hb else hb);
                        hm = fst (GetHeaderMutator d rule);
                        hb2 = (if HasHeaders d hm then SetRequestHeaders d (Headers hm) hb1 else hb1)
                    in if IsJwtSecured d rule then hb2 else hb)"
    unfolding hdr jwtMutators_Inr(1) [OF hb] by (simp add: Let_def)
next
  fix vs e
  assume "\<exists>rule\<in>set rules. IsJwtSecured d rule \<and>
              (snd (GetCookieMutator d rule) \<noteq> None \<or> snd (GetHeaderMutator d rule) \<noteq> None)"
  then obtain rule where
    rule: "rule \<in> set rules" and jwt: "IsJwtSecured d rule" and
    bad: "snd (GetCookieMutator d rule) \<noteq> None \<or> snd (GetHeaderMutator d rule) \<noteq> None"
    by blast
  show "Create d r api \<noteq> Returns (Some vs, e)"
  proof
    assume c: "Create d r api = Returns (Some vs, e)"
    from rule obtain i where i: "i < length rules" and ri: "rules ! i = rule"
      by (auto simp: in_set_conv_nth)
    have "ruleRoute d r api (rules ! i) = Returns (Inr (Http (Spec_vs vs) ! i))"
      using Create_routes(2) [OF c] i assms by simp
    from ruleRoute_Inr [OF this] obtain hb0 hb where
      "jwtMutators d rule hb0 = Inr hb"
      using ri by auto
    from jwtMutators_Inr(2) [OF this jwt] bad show False by simp
  qed
next
  assume ex: "\<exists>rule\<in>set rules. IsJwtSecured d rule \<and>
              (snd (GetCookieMutator d rule) \<noteq> None \<or> snd (GetHeaderMutator d rule) \<noteq> None)"
     and nn: "noNilPointer d r api"
  from nn obtain h g where h: "Host (Spec api) = Some h" and g: "Gateway (Spec api) = Some g"
    by (auto simp: noNilPointer_def)
  have np: "\<forall>rule\<in>set rules. ruleRoute d r api rule \<noteq> Panics"
    using ruleRoute_noNilPointer(1) [OF nn] assms by simp
  have "\<exists>rule\<in>set rules. \<exists>err. ruleRoute d r api rule = Returns (Inl err)"
  proof -
    from ex obtain rule where
      rule: "rule \<in> set rules" and jwt: "IsJwtSecured d rule" and
      bad: "snd (GetCookieMutator d rule) \<noteq> None \<or> snd (GetHeaderMutator d rule) \<noteq> None"
      by blast
    from bad obtain err where
      "snd (GetCookieMutator d rule) = Some err \<or>
       snd (GetCookieMutator d rule) = None \<and> snd (GetHeaderMutator d rule) = Some err"
      by (cases "snd (GetCookieMutator d rule)") auto
    with jwt rule have "ruleRoute d r api rule = Returns (Inl err)"
      using ruleRoute_noNilPointer(2) [OF nn, of rule err] assms by simp
    with rule show ?thesis by blast
  qed
  from rulesLoop_first_error [OF np this] obtain i err where
    i: "i < length rules" and
    fails: "ruleRoute d r api (rules ! i) = Returns (Inl err)" and
    before: "\<forall>j<i. \<exists>hr. ruleRoute d r api (rules ! j) = Returns (Inr hr)" and
    loop: "rulesLoop d r api rules
             (VirtualServiceSpec_Gateway g
                (VirtualServiceSpec_Host (GetHostWithDomain d h (defaultDomainName r))
                   builders_VirtualServiceSpec)) = Returns (Inl err)"
    by blast
  have mem: "\<And>k. k < length rules \<Longrightarrow> rules ! k \<in> set (FilterDuplicatePaths d (Rules (Spec api)))"
    using assms by simp
  have f: "IsJwtSecured d (rules ! i) \<and>
           (snd (GetCookieMutator d (rules ! i)) = Some err \<or>
            snd (GetCookieMutator d (rules ! i)) = None \<and>
            snd (GetHeaderMutator d (rules ! i)) = Some err)"
    using ruleRoute_noNilPointer(2) [OF nn mem [OF i], of err] fails by simp
  have b: "\<forall>j<i. \<not> (IsJwtSecured d (rules ! j) \<and>
                    (snd (GetCookieMutator d (rules ! j)) \<noteq> None \<or>
                     snd (GetHeaderMutator d (rules ! j)) \<noteq> None))"
  proof (intro allI impI notI)
    fix j assume j: "j < i" and
      bad: "IsJwtSecured d (rules ! j) \<and>
            (snd (GetCookieMutator d (rules ! j)) \<noteq> None \<or>
             snd (GetHeaderMutator d (rules ! j)) \<noteq> None)"
    from before j obtain hr where "ruleRoute d r api (rules ! j) = Returns (Inr hr)" by blast
    from ruleRoute_Inr [OF this] obtain hb0 hb where "jwtMutators d (rules ! j) hb0 = Inr hb"
      by auto
    from jwtMutators_Inr(2) [OF this] bad show False by simp
  qed
  have "Create d r api = Returns (None, Some err)"
    using loop h g assms by (simp add: Create_def Let_def)
  with i f b show "\<exists>i err. i < length rules
                  \<and> IsJwtSecured d (rules ! i)
                  \<and> (snd (GetCookieMutator d (rules ! i)) = Some err \<or>
                     snd (GetCookieMutator d (rules ! i)) = None \<and>
                     snd (GetHeaderMutator d (rules ! i)) = Some err)
                  \<and> (\<forall>j<i. \<not> (IsJwtSecured d (rules ! j) \<and>
                              (snd (GetCookieMutator d (rules ! j)) \<noteq> None \<or>
                               snd (GetHeaderMutator d (rules ! j)) \<noteq> None)))
                  \<and> Create d r api = Returns (None, Some err)"
    by blast
qed

theorem Create_mutators_witness:
  "Create sample_Env sample_creator sample_api = Returns (Some sample_desired, None)
   \<and> Host (Spec sample_api) = Some ''httpbin''
   \<and> (2::nat) < length (FilterDuplicatePaths sample_Env (Rules (Spec sample_api)))
   \<and> HTTPRoute_Headers (Http (Spec_vs sample_desired) ! 0) =
        Some (SetHostHeader sample_Env ''httpbin.example.com''
                (NewHttpRouteHeadersBuilder sample_Env))
   \<and> HTTPRoute_Headers (Http (Spec_vs sample_desired) ! 2) =
        Some (SetRequestHeaders sample_Env [(''x-user'', ''bob'')]
                (SetRequestCookies sample_Env ''user=alice''
                   (SetHostHeader sample_Env ''httpbin.example.com''
                      (NewHttpRouteHeadersBuilder sample_Env))))
   \<and> (\<exists>rule\<in>set (FilterDuplicatePaths sample_Env (Rules (Spec sample_api_malformed))).
         IsJwtSecured sample_Env rule \<and>
         (snd (GetCookieMutator sample_Env rule) \<noteq> None \<or>
          snd (GetHeaderMutator sample_Env rule) \<noteq> None))
   \<and> noNilPointer sample_Env sample_creator sample_api_malformed
   \<and> (\<forall>vs e. Create sample_Env sample_creator sample_api_malformed \<noteq> Returns (Some vs, e))
   \<and> (\<exists>err. Create sample_Env sample_creator sample_api_malformed = Returns (None, Some err)
          \<and> err = CollaboratorError ''cookie mutator'')"
proof -
  note ok = Create_mutators [OF refl, where d = sample_Env and api = sample_api
                               and r = sample_creator]
  note bad = Create_mutators [OF refl, where d = sample_Env and api = sample_api_malformed
                                and r = sample_creator]
  have host: "Host (Spec sample_api) = Some ''httpbin''"
    by (simp add: sample_defs)
  have r0: "(0::nat) < length (FilterDuplicatePaths sample_Env (Rules (Spec sample_api)))"
   and r2: "(2::nat) < length (FilterDuplicatePaths sample_Env (Rules (Spec sample_api)))"
    by (simp_all add: sample_defs)
  have h0: "HTTPRoute_Headers (Http (Spec_vs sample_desired) ! 0) =
        Some (SetHostHeader sample_Env ''httpbin.example.com''
                (NewHttpRouteHeadersBuilder sample_Env))"
    using ok [THEN conjunct1, rule_format, of sample_desired None "''httpbin''" 0]
      Create_sample host r0
    by (simp add: sample_defs Let_def)
  have h2: "HTTPRoute_Headers (Http (Spec_vs sample_desired) ! 2) =
        Some (SetRequestHeaders sample_Env [(''x-user'', ''bob'')]
                (SetRequestCookies sample_Env ''user=alice''
                   (SetHostHeader sample_Env ''httpbin.example.com''
                      (NewHttpRouteHeadersBuilder sample_Env))))"
    using ok [THEN conjunct1, rule_format, of sample_desired None "''httpbin''" 2]
      Create_sample host r2
    by (simp add: sample_defs Let_def)
  have ex: "\<exists>rule\<in>set (FilterDuplicatePaths sample_Env (Rules (Spec sample_api_malformed))).
         IsJwtSecured sample_Env rule \<and>
         (snd (GetCookieMutator sample_Env rule) \<noteq> None \<or>
          snd (GetHeaderMutator sample_Env rule) \<noteq> None)"
    by (simp add: sample_defs)
  from bad [THEN conjunct2, rule_format, OF ex] have
    none: "\<forall>vs e. Create sample_Env sample_creator sample_api_malformed \<noteq> Returns (Some vs, e)"
    and "noNilPointer sample_Env sample_creator sample_api_malformed \<longrightarrow>
         (\<exists>err. Create sample_Env sample_creator sample_api_malformed = Returns (None, Some err))"
    by blast+
  with noNilPointer_sample_malformed Create_sample_malformed have
    err: "\<exists>err. Create sample_Env sample_creator sample_api_malformed = Returns (None, Some err)
          \<and> err = CollaboratorError ''cookie mutator''"
    by simp
  from Create_sample host r2 h0 h2 ex noNilPointer_sample_malformed none err
  show ?thesis by blast
qed

lemma Create_sample_owner:
  "Create sample_Env sample_creator_owner sample_api =
     Returns (Some (sample_desired\<lparr>Labels :=
        [''apirule.gateway.kyma-project.io/v1beta1'' \<mapsto> ''payments'',
         ''apirule.gateway.kyma-project.io/v1alpha1'' \<mapsto> ''httpbin.prod'']\<rparr>), None)"
  by (simp add: Create_defs Let_def sample_defs builders_defs sample_desired_def sample_cors_def
        sample_setHeader_def sample_creator_owner_def fun_upd_twist)

text \<open>
  C8 (as amended). Whenever \<open>Create\<close> returns an object, its namespace is the namespace
  of the APIRule; it carries each of the two ownership label keys with the value
  \<open>name.namespace\<close> of the APIRule, provided that key is not also a key of the configured
  extra labels; and it carries every configured extra label with its configured value.
  The extra labels are written after the ownership labels, so an extra label under an
  ownership key replaces the ownership value.
\<close>

theorem Create_labels:
  assumes "Create d r api = Returns (Some vs, e)"
      and "owner = Name (APIRule_ObjectMeta api) @ ''.'' @ Namespace (APIRule_ObjectMeta api)"
  shows "Namespace vs = Namespace (APIRule_ObjectMeta api)
       \<and> (OwnerLabel d \<notin> fst ` set (additionalLabels r) \<longrightarrow> Labels vs (OwnerLabel d) = Some owner)
       \<and> (OwnerLabelv1alpha1 d \<notin> fst ` set (additionalLabels r) \<longrightarrow>
            Labels vs (OwnerLabelv1alpha1 d) = Some owner)
       \<and> (distinct (map fst (additionalLabels r)) \<longrightarrow>
            (\<forall>(k, v) \<in> set (additionalLabels r). Labels vs k = Some v))"
proof -
  from Create_Some [OF assms(1)] have
    ns: "Namespace vs = Namespace (APIRule_ObjectMeta api)" and
    labels: "Labels vs = [OwnerLabel d \<mapsto> owner, OwnerLabelv1alpha1 d \<mapsto> owner]
                           ++ map_of (rev (additionalLabels r))"
    using assms(2) by auto
  have absent: "\<And>k. k \<notin> fst ` set (additionalLabels r) \<Longrightarrow> map_of (rev (additionalLabels r)) k = None"
    by (simp add: map_of_eq_None_iff)
  have o1: "OwnerLabel d \<notin> fst ` set (additionalLabels r) \<longrightarrow> Labels vs (OwnerLabel d) = Some owner"
    using absent by (auto simp: labels map_add_def)
  have o2: "OwnerLabelv1alpha1 d \<notin> fst ` set (additionalLabels r) \<longrightarrow>
            Labels vs (OwnerLabelv1alpha1 d) = Some owner"
    using absent by (auto simp: labels map_add_def)
  have extra: "distinct (map fst (additionalLabels r)) \<longrightarrow>
            (\<forall>(k, v) \<in> set (additionalLabels r). Labels vs k = Some v)"
  proof (intro impI ballI)
    fix kv assume dist: "distinct (map fst (additionalLabels r))" and kv: "kv \<in> set (additionalLabels r)"
    obtain k v where [simp]: "kv = (k, v)" by (cases kv)
    have "distinct (map fst (rev (additionalLabels r)))"
      using dist by (simp add: rev_map [symmetric])
    then have "map_of (rev (additionalLabels r)) k = Some v"
      using kv by (intro map_of_is_SomeI) auto
    then show "case kv of (k, v) \<Rightarrow> Labels vs k = Some v"
      by (simp add: labels map_add_def)
  qed
  from ns o1 o2 extra show ?thesis by blast
qed

theorem Create_labels_witness:
  "Create sample_Env sample_creator sample_api = Returns (Some sample_desired, None)
   \<and> OwnerLabel sample_Env \<notin> fst ` set (additionalLabels sample_creator)
   \<and> OwnerLabelv1alpha1 sample_Env \<notin> fst ` set (additionalLabels sample_creator)
   \<and> distinct (map fst (additionalLabels sample_creator))
   \<and> Namespace sample_desired = ''prod''
   \<and> Labels sample_desired ''apirule.gateway.kyma-project.io/v1beta1'' = Some ''httpbin.prod''
   \<and> Labels sample_desired ''apirule.gateway.kyma-project.io/v1alpha1'' = Some ''httpbin.prod''
   \<and> Labels sample_desired ''team'' = Some ''payments''"
proof -
  have h: "OwnerLabel sample_Env \<notin> fst ` set (additionalLabels sample_creator)"
          "OwnerLabelv1alpha1 sample_Env \<notin> fst ` set (additionalLabels sample_creator)"
          "distinct (map fst (additionalLabels sample_creator))"
    by (simp_all add: sample_defs)
  from Create_labels [OF Create_sample refl] h have
    "Namespace sample_desired = Namespace (APIRule_ObjectMeta sample_api)"
    "Labels sample_desired (OwnerLabel sample_Env) =
       Some (Name (APIRule_ObjectMeta sample_api) @ ''.'' @ Namespace (APIRule_ObjectMeta sample_api))"
    "Labels sample_desired (OwnerLabelv1alpha1 sample_Env) =
       Some (Name (APIRule_ObjectMeta sample_api) @ ''.'' @ Namespace (APIRule_ObjectMeta sample_api))"
    "\<forall>(k, v) \<in> set (additionalLabels sample_creator). Labels sample_desired k = Some v"
    by blast+
  then have
    "Namespace sample_desired = ''prod''"
    "Labels sample_desired ''apirule.gateway.kyma-project.io/v1beta1'' = Some ''httpbin.prod''"
    "Labels sample_desired ''apirule.gateway.kyma-project.io/v1alpha1'' = Some ''httpbin.prod''"
    "Labels sample_desired ''team'' = Some ''payments''"
    by (simp_all add: sample_defs)
  with Create_sample h show ?thesis by blast
qed

text \<open>
  With the current ownership key among the extra labels, the object that \<open>Create\<close>
  returns for the sample APIRule carries the configured value under that key, not
  \<open>httpbin.prod\<close>.
\<close>

theorem Create_labels_counterexample:
  "returnedLabel (Create sample_Env sample_creator_owner sample_api) (OwnerLabel sample_Env)
     = Some ''payments''
   \<and> Name (APIRule_ObjectMeta sample_api) @ ''.'' @ Namespace (APIRule_ObjectMeta sample_api)
     = ''httpbin.prod''"
  by (simp add: returnedLabel_def Create_sample_owner) (simp add: sample_defs)

section \<open>The reconciliation\<close>

lemmas processor_defs =
  EvaluateReconciliation_def getDesiredState_def getActualState_def getObjectChanges_def
  NewObjectCreateAction_def NewObjectUpdateAction_def DeepCopy_def

lemma Create_Name_empty:
  "Create d r api = Returns (Some vs, e) \<Longrightarrow> Name vs = [] \<and> e = None"
  using Create_Some [of d r api vs e] by auto

lemma getDesiredState_sample:
  "getDesiredState (NewVirtualServiceProcessor sample_Env sample_config) sample_api =
     Returns (Some sample_desired, None)"
proof -
  have "Creator (NewVirtualServiceProcessor sample_Env sample_config) =
          Create sample_Env sample_creator"
    by (simp add: NewVirtualServiceProcessor_def sample_config_def sample_creator_def)
  then show ?thesis
    by (simp add: getDesiredState_def Create_sample)
qed

text \<open>
  C2. With an actual object, \<open>getObjectChanges\<close> returns an update of an object that has
  the name, the namespace, the resource version, the generate-name and the labels of the
  actual object and the spec of the desired one; with no actual object it returns a create
  of the desired object. The desired object of the Istio processor has an empty name, and
  \<open>EvaluateReconciliation\<close> returns exactly that change: the create when the lookup finds
  nothing, the update of the first item otherwise.
\<close>

theorem getObjectChanges_diff:
  "(\<exists>u. getObjectChanges (Some desired) (Some actual) = Returns (UpdateAction (Some u))
        \<and> Name u = Name actual \<and> Namespace u = Namespace actual
        \<and> ResourceVersion u = ResourceVersion actual
        \<and> GenerateName u = GenerateName actual \<and> Labels u = Labels actual
        \<and> Spec_vs u = Spec_vs desired)
   \<and> getObjectChanges (Some desired) None = Returns (CreateAction (Some desired))
   \<and> (getDesiredState (NewVirtualServiceProcessor d config) api = Returns (Some desired, e) \<longrightarrow>
        Name desired = [] \<and>
        (\<forall>(client::Client) items. client_List client (GetOwnerLabels d api) = (items, None) \<longrightarrow>
           EvaluateReconciliation d (NewVirtualServiceProcessor d config) client api =
             Returns ([case items of
                         [] \<Rightarrow> CreateAction (Some desired)
                       | a # rest \<Rightarrow> UpdateAction (Some (a\<lparr>Spec_vs := Spec_vs desired\<rparr>))], None)))"
proof (intro conjI impI allI)
  show "\<exists>u. getObjectChanges (Some desired) (Some actual) = Returns (UpdateAction (Some u))
        \<and> Name u = Name actual \<and> Namespace u = Namespace actual
        \<and> ResourceVersion u = ResourceVersion actual
        \<and> GenerateName u = GenerateName actual \<and> Labels u = Labels actual
        \<and> Spec_vs u = Spec_vs desired"
    by (simp add: processor_defs)
  show "getObjectChanges (Some desired) None = Returns (CreateAction (Some desired))"
    by (simp add: processor_defs)
next
  assume a: "getDesiredState (NewVirtualServiceProcessor d config) api = Returns (Some desired, e)"
  then obtain cr where "Create d cr api = Returns (Some desired, e)"
    by (simp add: getDesiredState_def NewVirtualServiceProcessor_def)
  from Create_Name_empty [OF this] show "Name desired = []" by simp
next
  fix client :: Client and items
  assume a: "getDesiredState (NewVirtualServiceProcessor d config) api = Returns (Some desired, e)"
     and l: "client_List client (GetOwnerLabels d api) = (items, None)"
  from a obtain cr where "Create d cr api = Returns (Some desired, e)"
    by (simp add: getDesiredState_def NewVirtualServiceProcessor_def)
  from Create_Name_empty [OF this] have e: "e = None" by simp
  show "EvaluateReconciliation d (NewVirtualServiceProcessor d config) client api =
             Returns ([case items of
                         [] \<Rightarrow> CreateAction (Some desired)
                       | a # rest \<Rightarrow> UpdateAction (Some (a\<lparr>Spec_vs := Spec_vs desired\<rparr>))], None)"
    using a l e
    by (cases items)
       (simp_all add: EvaluateReconciliation_def getActualState_def getObjectChanges_def
          NewObjectCreateAction_def NewObjectUpdateAction_def DeepCopy_def)
qed

theorem getObjectChanges_diff_witness:
  "getObjectChanges (Some sample_desired) (Some sample_actual) =
     Returns (UpdateAction (Some (sample_actual\<lparr>Spec_vs := Spec_vs sample_desired\<rparr>)))
   \<and> getDesiredState (NewVirtualServiceProcessor sample_Env sample_config) sample_api =
       Returns (Some sample_desired, None)
   \<and> Name sample_desired = []
   \<and> client_List (sample_client [] None) (GetOwnerLabels sample_Env sample_api) = ([], None)
   \<and> EvaluateReconciliation sample_Env (NewVirtualServiceProcessor sample_Env sample_config)
        (sample_client [] None) sample_api =
       Returns ([CreateAction (Some sample_desired)], None)
   \<and> client_List (sample_client [sample_actual] None) (GetOwnerLabels sample_Env sample_api)
        = ([sample_actual], None)
   \<and> EvaluateReconciliation sample_Env (NewVirtualServiceProcessor sample_Env sample_config)
        (sample_client [sample_actual] None) sample_api =
       Returns ([UpdateAction (Some (sample_actual\<lparr>Spec_vs := Spec_vs sample_desired\<rparr>))], None)"
proof -
  note t = getObjectChanges_diff [where desired = sample_desired and d = sample_Env
             and config = sample_config and api = sample_api and e = None
             and actual = sample_actual]
  have l0: "client_List (sample_client [] None) (GetOwnerLabels sample_Env sample_api) = ([], None)"
   and l1: "client_List (sample_client [sample_actual] None) (GetOwnerLabels sample_Env sample_api)
        = ([sample_actual], None)"
    by (simp_all add: sample_client_def)
  from t getDesiredState_sample have
    n: "Name sample_desired = []" and
    ev: "\<forall>(client::Client) items. client_List client (GetOwnerLabels sample_Env sample_api) = (items, None) \<longrightarrow>
           EvaluateReconciliation sample_Env (NewVirtualServiceProcessor sample_Env sample_config)
             client sample_api =
             Returns ([case items of
                         [] \<Rightarrow> CreateAction (Some sample_desired)
                       | a # rest \<Rightarrow> UpdateAction (Some (a\<lparr>Spec_vs := Spec_vs sample_desired\<rparr>))], None)"
    by blast+
  from ev l0 have e0: "EvaluateReconciliation sample_Env
        (NewVirtualServiceProcessor sample_Env sample_config) (sample_client [] None) sample_api =
       Returns ([CreateAction (Some sample_desired)], None)"
    by fastforce
  from ev l1 have e1: "EvaluateReconciliation sample_Env
        (NewVirtualServiceProcessor sample_Env sample_config)
        (sample_client [sample_actual] None) sample_api =
       Returns ([UpdateAction (Some (sample_actual\<lparr>Spec_vs := Spec_vs sample_desired\<rparr>))], None)"
    by fastforce
  have u: "getObjectChanges (Some sample_desired) (Some sample_actual) =
     Returns (UpdateAction (Some (sample_actual\<lparr>Spec_vs := Spec_vs sample_desired\<rparr>)))"
    by (simp add: processor_defs)
  from u getDesiredState_sample n l0 e0 l1 e1 show ?thesis by blast
qed

text \<open>
  C5. When \<open>EvaluateReconciliation\<close> returns with no error, it returns exactly one change;
  when it returns with an error, it returns no change. When the creator returns an error,
  and when the creator succeeds and the lookup returns an error, it returns that error
  with the empty list of changes.
\<close>

theorem EvaluateReconciliation_changes:
  "(EvaluateReconciliation d r client apiRule = Returns (changes, None) \<longrightarrow> length changes = 1)
   \<and> (EvaluateReconciliation d r client apiRule = Returns (changes, Some err) \<longrightarrow> changes = [])
   \<and> (getDesiredState r apiRule = Returns (desired, Some err) \<longrightarrow>
        EvaluateReconciliation d r client apiRule = Returns ([], Some err))
   \<and> (getDesiredState r apiRule = Returns (desired, None)
        \<and> client_List client (GetOwnerLabels d apiRule) = (items, Some err) \<longrightarrow>
        EvaluateReconciliation d r client apiRule = Returns ([], Some err))"
  by (auto simp: EvaluateReconciliation_def getActualState_def
           split: outcome.splits prod.splits option.splits if_splits)

theorem EvaluateReconciliation_changes_witness:
  "EvaluateReconciliation sample_Env (NewVirtualServiceProcessor sample_Env sample_config)
     (sample_client [sample_actual] None) sample_api =
     Returns ([UpdateAction (Some (sample_actual\<lparr>Spec_vs := Spec_vs sample_desired\<rparr>))], None)
   \<and> length [UpdateAction (Some (sample_actual\<lparr>Spec_vs := Spec_vs sample_desired\<rparr>))] = 1
   \<and> getDesiredState (NewVirtualServiceProcessor sample_Env sample_config) sample_api_malformed =
       Returns (None, Some (CollaboratorError ''cookie mutator''))
   \<and> EvaluateReconciliation sample_Env (NewVirtualServiceProcessor sample_Env sample_config)
        (sample_client [sample_actual] None) sample_api_malformed =
       Returns ([], Some (CollaboratorError ''cookie mutator''))
   \<and> getDesiredState (NewVirtualServiceProcessor sample_Env sample_config) sample_api =
       Returns (Some sample_desired, None)
   \<and> client_List (sample_client [] (Some (CollaboratorError ''context deadline exceeded'')))
        (GetOwnerLabels sample_Env sample_api) =
       ([], Some (CollaboratorError ''context deadline exceeded''))
   \<and> EvaluateReconciliation sample_Env (NewVirtualServiceProcessor sample_Env sample_config)
        (sample_client [] (Some (CollaboratorError ''context deadline exceeded''))) sample_api =
       Returns ([], Some (CollaboratorError ''context deadline exceeded''))"
proof -
  have cr: "Creator (NewVirtualServiceProcessor sample_Env sample_config) =
          Create sample_Env sample_creator"
    by (simp add: NewVirtualServiceProcessor_def sample_config_def sample_creator_def)
  have ok: "EvaluateReconciliation sample_Env (NewVirtualServiceProcessor sample_Env sample_config)
     (sample_client [sample_actual] None) sample_api =
     Returns ([UpdateAction (Some (sample_actual\<lparr>Spec_vs := Spec_vs sample_desired\<rparr>))], None)"
    by (simp add: processor_defs cr Create_sample sample_client_def)
  have bad: "getDesiredState (NewVirtualServiceProcessor sample_Env sample_config) sample_api_malformed =
       Returns (None, Some (CollaboratorError ''cookie mutator''))"
    by (simp add: getDesiredState_def cr Create_sample_malformed)
  have l: "client_List (sample_client [] (Some (CollaboratorError ''context deadline exceeded'')))
        (GetOwnerLabels sample_Env sample_api) =
       ([], Some (CollaboratorError ''context deadline exceeded''))"
    by (simp add: sample_client_def)
  note t1 = EvaluateReconciliation_changes
    [where d = sample_Env and r = "NewVirtualServiceProcessor sample_Env sample_config"
       and client = "sample_client [sample_actual] None" and apiRule = sample_api
       and changes = "[UpdateAction (Some (sample_actual\<lparr>Spec_vs := Spec_vs sample_desired\<rparr>))]"]
  note t2 = EvaluateReconciliation_changes
    [where d = sample_Env and r = "NewVirtualServiceProcessor sample_Env sample_config"
       and client = "sample_client [sample_actual] None" and apiRule = sample_api_malformed
       and desired = None and err = "CollaboratorError ''cookie mutator''"]
  note t3 = EvaluateReconciliation_changes
    [where d = sample_Env and r = "NewVirtualServiceProcessor sample_Env sample_config"
       and client = "sample_client [] (Some (CollaboratorError ''context deadline exceeded''))"
       and apiRule = sample_api and desired = "Some sample_desired" and items = "[]"
       and err = "CollaboratorError ''context deadline exceeded''"]
  from t1 ok have c1: "length [UpdateAction (Some (sample_actual\<lparr>Spec_vs := Spec_vs sample_desired\<rparr>))] = 1"
    by blast
  from t2 bad have c2: "EvaluateReconciliation sample_Env
        (NewVirtualServiceProcessor sample_Env sample_config)
        (sample_client [sample_actual] None) sample_api_malformed =
       Returns ([], Some (CollaboratorError ''cookie mutator''))"
    by blast
  from t3 getDesiredState_sample l have c3: "EvaluateReconciliation sample_Env
        (NewVirtualServiceProcessor sample_Env sample_config)
        (sample_client [] (Some (CollaboratorError ''context deadline exceeded''))) sample_api =
       Returns ([], Some (CollaboratorError ''context deadline exceeded''))"
    by blast
  from ok c1 bad c2 getDesiredState_sample l c3 show ?thesis by blast
qed

text \<open>
  C7. When the lookup returns no item and no error, \<open>getActualState\<close> returns no object
  and the pass returns the create of the desired object; when it returns one or more
  items, \<open>getActualState\<close> returns the first of them; when it returns an error,
  \<open>getActualState\<close> returns that error and the pass returns it with no change.
\<close>

theorem getActualState_lookup:
  "(client_List client (GetOwnerLabels d api) = ([], None) \<longrightarrow>
      getActualState d client api = (None, None) \<and>
      (getDesiredState r api = Returns (desired, None) \<longrightarrow>
         EvaluateReconciliation d r client api = Returns ([CreateAction desired], None)))
   \<and> (client_List client (GetOwnerLabels d api) = (a # rest, None) \<longrightarrow>
        getActualState d client api = (Some a, None))
   \<and> (client_List client (GetOwnerLabels d api) = (items, Some err) \<longrightarrow>
        getActualState d client api = (None, Some err) \<and>
        (getDesiredState r api = Returns (desired, None) \<longrightarrow>
           EvaluateReconciliation d r client api = Returns ([], Some err)))"
  by (simp add: processor_defs)

theorem getActualState_lookup_witness:
  "client_List (sample_client [] None) (GetOwnerLabels sample_Env sample_api) = ([], None)
   \<and> getActualState sample_Env (sample_client [] None) sample_api = (None, None)
   \<and> getDesiredState (NewVirtualServiceProcessor sample_Env sample_config) sample_api =
       Returns (Some sample_desired, None)
   \<and> EvaluateReconciliation sample_Env (NewVirtualServiceProcessor sample_Env sample_config)
        (sample_client [] None) sample_api =
       Returns ([CreateAction (Some sample_desired)], None)
   \<and> client_List (sample_client [sample_actual, sample_desired] None)
        (GetOwnerLabels sample_Env sample_api) = (sample_actual # [sample_desired], None)
   \<and> getActualState sample_Env (sample_client [sample_actual, sample_desired] None) sample_api =
       (Some sample_actual, None)
   \<and> client_List (sample_client [sample_actual] (Some (CollaboratorError ''forbidden'')))
        (GetOwnerLabels sample_Env sample_api) =
       ([sample_actual], Some (CollaboratorError ''forbidden''))
   \<and> getActualState sample_Env
        (sample_client [sample_actual] (Some (CollaboratorError ''forbidden''))) sample_api =
       (None, Some (CollaboratorError ''forbidden''))
   \<and> EvaluateReconciliation sample_Env (NewVirtualServiceProcessor sample_Env sample_config)
        (sample_client [sample_actual] (Some (CollaboratorError ''forbidden''))) sample_api =
       Returns ([], Some (CollaboratorError ''forbidden''))"
proof -
  have l0: "client_List (sample_client [] None) (GetOwnerLabels sample_Env sample_api) = ([], None)"
   and l1: "client_List (sample_client [sample_actual, sample_desired] None)
        (GetOwnerLabels sample_Env sample_api) = (sample_actual # [sample_desired], None)"
   and l2: "client_List (sample_client [sample_actual] (Some (CollaboratorError ''forbidden'')))
        (GetOwnerLabels sample_Env sample_api) =
       ([sample_actual], Some (CollaboratorError ''forbidden''))"
    by (simp_all add: sample_client_def)
  note t0 = getActualState_lookup
    [where d = sample_Env and client = "sample_client [] None" and api = sample_api
       and r = "NewVirtualServiceProcessor sample_Env sample_config"
       and desired = "Some sample_desired", THEN conjunct1, rule_format, OF l0]
  note t1 = getActualState_lookup
    [where d = sample_Env and client = "sample_client [sample_actual, sample_desired] None"
       and api = sample_api and a = sample_actual and rest = "[sample_desired]",
     THEN conjunct2, THEN conjunct1, rule_format, OF l1]
  note t2 = getActualState_lookup
    [where d = sample_Env
       and client = "sample_client [sample_actual] (Some (CollaboratorError ''forbidden''))"
       and api = sample_api and items = "[sample_actual]"
       and err = "CollaboratorError ''forbidden''"
       and r = "NewVirtualServiceProcessor sample_Env sample_config"
       and desired = "Some sample_desired",
     THEN conjunct2, THEN conjunct2, rule_format, OF l2]
  from t0 t1 t2 l0 l1 l2 getDesiredState_sample show ?thesis by blast
qed

section \<open>The access token\<close>

lemmas sample_oauth2_defs =
  sample_oauth2_def sample_oauth2_strict_def sample_token_def sample_oauth2Cfg_def
  sample_Config_def

text \<open>
  C9. For a configuration that is not nil, \<open>GetAccessToken\<close> returns, and it returns
  either the non-empty access token of a valid token of type \<open>Bearer\<close> with no error, or
  the empty string with exactly one error: the error of the token request if it returned
  one; otherwise the invalid-token error if the token is not valid; otherwise the
  wrong-token-type error, the type of the token being other than \<open>Bearer\<close>.
\<close>

theorem GetAccessToken_results:
  assumes "config = Some c"
      and "httpClient =
             \<lparr>Transport = \<lparr>TLSClientConfig = \<lparr>InsecureSkipVerify = True\<rparr>\<rparr>,
              Client_Timeout = ClientTimeout (ClientConfig_of c),
              Client_Jar = Some \<lparr>psList = Some publicsuffix_List\<rparr>\<rparr>"
      and "request = Config_Token e (tokenFormatParams oauth2Cfg tokenType) httpClient"
  shows "\<exists>s err. GetAccessToken e oauth2Cfg config tokenType = Returns (s, err) \<and>
           (case err of
              None \<Rightarrow>
                (\<exists>t. request = (Some t, None) \<and> Token_Valid e (Some t)
                    \<and> TokenType t = ''Bearer'' \<and> s = AccessToken t \<and> s \<noteq> [])
            | Some x \<Rightarrow>
                s = [] \<and>
                (if snd request \<noteq> None then snd request = Some x
                 else if \<not> Token_Valid e (fst request) then x = TokenInvalid (fst request)
                 else \<exists>t. fst request = Some t \<and> TokenType t \<noteq> ''Bearer''
                          \<and> x = WrongTokenType (TokenType t)))"
proof (cases request)
  case (Pair token rerr)
  show ?thesis
  proof (cases rerr)
    case (Some x)
    with Pair assms show ?thesis
      by (simp add: GetAccessToken_def newHttpClient_def cookiejar_New_def)
  next
    case None
    show ?thesis
    proof (cases "Token_Valid e token")
      case False
      with None Pair assms show ?thesis
        by (simp add: GetAccessToken_def newHttpClient_def cookiejar_New_def)
    next
      case True
      then obtain t where t: "token = Some t" and nonempty: "AccessToken t \<noteq> []"
        by (auto simp: Token_Valid_def split: option.splits)
      with True None Pair assms show ?thesis
        by (simp add: GetAccessToken_def newHttpClient_def cookiejar_New_def)
    qed
  qed
qed

theorem GetAccessToken_results_witness:
  "GetAccessToken sample_oauth2 (sample_oauth2Cfg ''good'') (Some sample_Config) [''jwt'']
     = Returns (''t0k3n'', None)
   \<and> GetAccessToken sample_oauth2 (sample_oauth2Cfg ''unknown'') (Some sample_Config) []
     = Returns ([], Some (CollaboratorError ''oauth2: cannot fetch token''))
   \<and> GetAccessToken sample_oauth2 (sample_oauth2Cfg ''blank'') (Some sample_Config) []
     = Returns ([], Some (TokenInvalid (Some \<lparr>AccessToken = [], TokenType = ''Bearer''\<rparr>)))
   \<and> GetAccessToken sample_oauth2 (sample_oauth2Cfg ''basic'') (Some sample_Config) []
     = Returns ([], Some (WrongTokenType ''Basic''))"
proof -
  note t = GetAccessToken_results [OF refl refl refl, where e = sample_oauth2
             and c = sample_Config]
  have "GetAccessToken sample_oauth2 (sample_oauth2Cfg ''good'') (Some sample_Config) [''jwt'']
     = Returns (''t0k3n'', None)"
    using t [of "sample_oauth2Cfg ''good''" "[''jwt'']"]
    by (auto simp: sample_oauth2_defs tokenFormatParams_def url_Values_Add_def Token_Valid_def
             split: option.splits)
  moreover have "GetAccessToken sample_oauth2 (sample_oauth2Cfg ''unknown'') (Some sample_Config) []
     = Returns ([], Some (CollaboratorError ''oauth2: cannot fetch token''))"
    using t [of "sample_oauth2Cfg ''unknown''" "[]"]
    by (auto simp: sample_oauth2_defs tokenFormatParams_def url_Values_Add_def Token_Valid_def
             split: option.splits)
  moreover have "GetAccessToken sample_oauth2 (sample_oauth2Cfg ''blank'') (Some sample_Config) []
     = Returns ([], Some (TokenInvalid (Some \<lparr>AccessToken = [], TokenType = ''Bearer''\<rparr>)))"
    using t [of "sample_oauth2Cfg ''blank''" "[]"]
    by (auto simp: sample_oauth2_defs tokenFormatParams_def url_Values_Add_def Token_Valid_def
             split: option.splits)
  moreover have "GetAccessToken sample_oauth2 (sample_oauth2Cfg ''basic'') (Some sample_Config) []
     = Returns ([], Some (WrongTokenType ''Basic''))"
    using t [of "sample_oauth2Cfg ''basic''" "[]"]
    by (auto simp: sample_oauth2_defs tokenFormatParams_def url_Values_Add_def Token_Valid_def
             split: option.splits)
  ultimately show ?thesis by blast
qed



end
